theory Spec2Isabelle
  imports Main "HOL-Library.Word"
begin

section \<open>Go strings and the standard-library functions the solver calls\<close>

text \<open>
  A Go string is a sequence of bytes; it is modelled as \<open>string\<close> (a list of 8-bit
  characters). \<open>strings.HasSuffix\<close> and \<open>strings.TrimSuffix\<close> are transcribed from
  the Go standard library:
  \<^verbatim>\<open>len(s) >= len(suffix) && s[len(s)-len(suffix):] == suffix\<close> and
  \<^verbatim>\<open>if HasSuffix(s, suffix) { return s[:len(s)-len(suffix)] }; return s\<close>.
\<close>

definition HasSuffix :: "string \<Rightarrow> string \<Rightarrow> bool" where
  "HasSuffix s suffix \<longleftrightarrow>
     length s \<ge> length suffix \<and> drop (length s - length suffix) s = suffix"

definition TrimSuffix :: "string \<Rightarrow> string \<Rightarrow> string" where
  "TrimSuffix s suffix =
     (if HasSuffix s suffix then take (length s - length suffix) s else s)"

text \<open>
  \<open>strings.EqualFold(s, t)\<close>: equality under Unicode simple case folding, modelled for
  a second argument \<open>t\<close> made of ASCII bytes, which is how the solver calls it (with the
  literal \<open>"TXT"\<close>). Two ASCII bytes are equal under folding when they are the same byte or
  the upper-case and lower-case form of one letter (\<open>asciiFoldEq\<close>, the test of the
  library's ASCII loop). A byte of \<open>s\<close> from \<open>0x80\<close> on starts a multi-byte rune (or is
  invalid UTF-8 and decodes to U+FFFD); the only such runes that fold to an ASCII letter are
  U+212A KELVIN SIGN (bytes \<open>E2 84 AA\<close>, folding to K and k) and U+017F LATIN SMALL LETTER
  LONG S (bytes \<open>C5 BF\<close>, folding to S and s).
\<close>

definition asciiFoldEq :: "char \<Rightarrow> char \<Rightarrow> bool" where
  "asciiFoldEq sr tr \<longleftrightarrow>
     sr = tr \<or>
     (let lo = min (of_char sr) (of_char tr) :: nat;
          hi = max (of_char sr) (of_char tr) :: nat
      in 65 \<le> lo \<and> lo \<le> 90 \<and> hi = lo + 32)"

fun EqualFold :: "string \<Rightarrow> string \<Rightarrow> bool" where
  "EqualFold [] [] = True"
| "EqualFold [] (tr # t) = False"
| "EqualFold (sr # s) [] = False"
| "EqualFold (sr # s) (tr # t) =
     (if of_char sr < (128::nat) then asciiFoldEq sr tr \<and> EqualFold s t
      else if sr = CHR 0xE2 \<and> take 2 s = [CHR 0x84, CHR 0xAA]
        then (tr = CHR ''K'' \<or> tr = CHR ''k'') \<and> EqualFold (drop 2 s) t
      else if sr = CHR 0xC5 \<and> take 1 s = [CHR 0xBF]
        then (tr = CHR ''S'' \<or> tr = CHR ''s'') \<and> EqualFold (drop 1 s) t
      else False)"


text \<open>
  \<open>strings.TrimSpace\<close> removes the leading and the trailing runes for which
  \<open>unicode.IsSpace\<close> holds: U+0009 to U+000D, U+0020, U+0085, U+00A0, U+1680, U+2000 to
  U+200A, U+2028, U+2029, U+202F, U+205F and U+3000. On a byte string a rune is a space
  exactly when the bytes at that place are the UTF-8 encoding of one of them (a byte that
  is not valid UTF-8 decodes to U+FFFD, which is no space), so \<open>spaceWidth\<close> gives the
  number of bytes of the space rune a string starts with (0 when it starts with none) and
  \<open>spaceWidthRev\<close> does the same for the last rune, on the reversed string.
\<close>

definition asciiSpace :: "char \<Rightarrow> bool" where
  "asciiSpace c \<longleftrightarrow>
     c = CHR 0x09 \<or> c = CHR 0x0A \<or> c = CHR 0x0B \<or> c = CHR 0x0C \<or> c = CHR 0x0D \<or> c = CHR 0x20"

fun spaceWidth :: "string \<Rightarrow> nat" where
  "spaceWidth [] = 0"
| "spaceWidth [c] = (if asciiSpace c then 1 else 0)"
| "spaceWidth [c, d] =
     (if asciiSpace c then 1
      else if c = CHR 0xC2 \<and> (d = CHR 0x85 \<or> d = CHR 0xA0) then 2 else 0)"
| "spaceWidth (c # d # e # s) =
     (if asciiSpace c then 1
      else if c = CHR 0xC2 \<and> (d = CHR 0x85 \<or> d = CHR 0xA0) then 2
      else if c = CHR 0xE1 \<and> d = CHR 0x9A \<and> e = CHR 0x80 then 3
      else if c = CHR 0xE2 \<and> d = CHR 0x80
              \<and> ((128::nat) \<le> of_char e \<and> of_char e \<le> (138::nat)
                  \<or> e = CHR 0xA8 \<or> e = CHR 0xA9 \<or> e = CHR 0xAF) then 3
      else if c = CHR 0xE2 \<and> d = CHR 0x81 \<and> e = CHR 0x9F then 3
      else if c = CHR 0xE3 \<and> d = CHR 0x80 \<and> e = CHR 0x80 then 3
      else 0)"

fun spaceWidthRev :: "string \<Rightarrow> nat" where
  "spaceWidthRev [] = 0"
| "spaceWidthRev [c] = (if asciiSpace c then 1 else 0)"
| "spaceWidthRev [d, c] =
     (if asciiSpace d then 1
      else if c = CHR 0xC2 \<and> (d = CHR 0x85 \<or> d = CHR 0xA0) then 2 else 0)"
| "spaceWidthRev (e # d # c # s) =
     (if asciiSpace e then 1
      else if d = CHR 0xC2 \<and> (e = CHR 0x85 \<or> e = CHR 0xA0) then 2
      else if c = CHR 0xE1 \<and> d = CHR 0x9A \<and> e = CHR 0x80 then 3
      else if c = CHR 0xE2 \<and> d = CHR 0x80
              \<and> ((128::nat) \<le> of_char e \<and> of_char e \<le> (138::nat)
                  \<or> e = CHR 0xA8 \<or> e = CHR 0xA9 \<or> e = CHR 0xAF) then 3
      else if c = CHR 0xE2 \<and> d = CHR 0x81 \<and> e = CHR 0x9F then 3
      else if c = CHR 0xE3 \<and> d = CHR 0x80 \<and> e = CHR 0x80 then 3
      else 0)"

function TrimLeftSpace :: "string \<Rightarrow> string" where
  "TrimLeftSpace s =
     (if spaceWidth s = 0 then s else TrimLeftSpace (drop (spaceWidth s) s))"
  by pat_completeness auto
termination
proof (relation "measure length")
  fix s :: string
  assume "spaceWidth s \<noteq> 0"
  then have "s \<noteq> []" by (cases s) simp_all
  with \<open>spaceWidth s \<noteq> 0\<close>
  show "(drop (spaceWidth s) s, s) \<in> measure length" by simp
qed simp

function TrimRightSpaceRev :: "string \<Rightarrow> string" where
  "TrimRightSpaceRev r =
     (if spaceWidthRev r = 0 then r else TrimRightSpaceRev (drop (spaceWidthRev r) r))"
  by pat_completeness auto
termination
proof (relation "measure length")
  fix r :: string
  assume "spaceWidthRev r \<noteq> 0"
  then have "r \<noteq> []" by (cases r) simp_all
  with \<open>spaceWidthRev r \<noteq> 0\<close>
  show "(drop (spaceWidthRev r) r, r) \<in> measure length" by simp
qed simp

declare TrimLeftSpace.simps [simp del] TrimRightSpaceRev.simps [simp del]

definition TrimSpace :: "string \<Rightarrow> string" where
  "TrimSpace s = rev (TrimRightSpaceRev (rev (TrimLeftSpace s)))"

text \<open>\<open>fmt.Sprint\<close> of an \<open>int64\<close>: its decimal numeral, with a minus sign when negative.\<close>

function showNat :: "nat \<Rightarrow> string" where
  "showNat n =
     (if n < 10 then [''0123456789'' ! n]
      else showNat (n div 10) @ [''0123456789'' ! (n mod 10)])"
  by pat_completeness auto
termination
  by (relation "measure id") auto

declare showNat.simps [simp del]

definition Sprint :: "int \<Rightarrow> string" where
  "Sprint i = (if i < 0 then CHR ''-'' # showNat (nat (- i)) else showNat (nat i))"

text \<open>\<open>%q\<close> of \<open>fmt.Errorf\<close>, for the plain ASCII key names it is applied to.\<close>

definition quoted :: "string \<Rightarrow> string" where
  "quoted s = CHR 0x22 # s @ [CHR 0x22]"


section \<open>Errors, time and HTTP\<close>

text \<open>
  A Go \<open>error\<close> is a value carrying a message (\<open>errors.New\<close>, \<open>fmt.Errorf\<close>, or an error a
  library call returned). \<open>time.Time\<close> is a number of nanoseconds on one clock;
  \<open>time.Duration\<close> is an \<open>int64\<close> of nanoseconds, so the Go \<open>int\<close>s that the code multiplies
  by \<open>time.Second\<close> are 64-bit words (the Dockerfile builds for amd64) and the product wraps.
  \<open>time.Until(t)\<close> is \<open>t.Sub(time.Now())\<close>, which saturates at the ends of the
  \<open>Duration\<close> range. The zero \<open>time.Time\<close> of a new client is the first of January of
  the year 1. A request keeps its method, its URL, the headers in the order in which the
  code sets them (under the names the code writes) and its body.
\<close>

datatype error = Error (message: string)

type_synonym Time = int

definition Second :: int where
  "Second = 1000000000"

definition seconds :: "64 word \<Rightarrow> int" where
  "seconds n = sint (n * 1000000000)"

definition Until :: "Time \<Rightarrow> Time \<Rightarrow> int" where
  "Until t n = max (- (2 ^ 63)) (min (2 ^ 63 - 1) (t - n))"

definition zeroTime :: Time where
  "zeroTime = - 62135596800 * Second"

record Request =
  Method :: string
  URL :: string
  Header :: "(string \<times> string) list"
  Body :: string

record Response =
  StatusCode :: int
  Status :: string
  RespBody :: string


section \<open>pkg/contabo: the API client\<close>

text \<open>
  The structs of \<open>client.go\<close> and the \<open>Config\<close> of the solver. \<open>RecordID\<close> (an \<open>int64\<close>),
  \<open>TTL\<close> and \<open>Prio\<close> (\<open>int\<close>) are only compared, copied and printed, so they are integers
  here; \<open>ExpiresIn\<close> and \<open>TimeoutSecs\<close> are multiplied and are 64-bit words. Field names are
  global in a theory: the fields of \<open>CreateRecordRequest\<close> carry the prefix \<open>cr\<close>, the \<open>TTL\<close>
  of \<open>Config\<close> is \<open>cfgTTL\<close>, and the \<open>Data\<close> of the list response is \<open>listData\<close>.
\<close>

record DNSRecord =
  RecordID :: int
  Name :: string
  Type :: string
  Data :: string
  TTL :: int
  Prio :: int

record CreateRecordRequest =
  crName :: string
  crType :: string
  crTTL :: int
  crPrio :: int
  crData :: string

record tokenResponse =
  AccessToken :: string
  TokenType :: string
  ExpiresIn :: "64 word"

record apiErrorResponse =
  ErrorMessage :: string

record listRecordsResponse =
  listData :: "DNSRecord list"

record Config =
  CredentialsSecretName :: string
  CredentialsSecretNamespace :: string
  BaseURL :: string
  AuthURL :: string
  cfgTTL :: int
  TimeoutSecs :: "64 word"

text \<open>
  What the program calls outside the repository, as parameters: \<open>json.Marshal\<close> of a create
  request, \<open>url.Values.Encode\<close> (the form as the list of its \<open>Set\<close> calls),
  \<open>url.PathEscape\<close>, \<open>url.QueryEscape\<close>, the check \<open>http.NewRequestWithContext\<close> makes
  of a method and a URL, \<open>uuid.NewString\<close> (the n-th identifier drawn), the round trip of
  \<open>httpClient.Do\<close> (given the requests sent so far, the request and the time it is sent,
  the outcome and the time it returns; a cancelled context or an expired deadline is one of
  its errors), the three JSON decoders applied to a response body (for the error body the
  value left in \<open>apiErr\<close>, since the code discards the decoder's error), and
  \<open>json.Unmarshal\<close> of the webhook configuration.
\<close>

record Env =
  Marshal :: "CreateRecordRequest \<Rightarrow> error + string"
  Encode :: "(string \<times> string) list \<Rightarrow> string"
  PathEscape :: "string \<Rightarrow> string"
  QueryEscape :: "string \<Rightarrow> string"
  NewRequestWithContext :: "string \<Rightarrow> string \<Rightarrow> error option"
  NewString :: "nat \<Rightarrow> string"
  RoundTrip :: "Request list \<Rightarrow> Request \<Rightarrow> Time \<Rightarrow> (error + Response) \<times> Time"
  decodeTokenResponse :: "string \<Rightarrow> error + tokenResponse"
  decodeApiErrorResponse :: "string \<Rightarrow> apiErrorResponse"
  decodeListRecordsResponse :: "string \<Rightarrow> error + listRecordsResponse"
  Unmarshal :: "string \<Rightarrow> error + Config"

text \<open>The state outside the client: the clock, the requests handed to \<open>httpClient.Do\<close> so
  far (oldest first) and the number of request identifiers drawn.\<close>

record World =
  now :: Time
  sent :: "Request list"
  uuids :: nat

definition newUUID :: "Env \<Rightarrow> World \<Rightarrow> string \<times> World" where
  "newUUID env w = (NewString env (uuids w), w\<lparr>uuids := Suc (uuids w)\<rparr>)"

definition Do :: "Env \<Rightarrow> Request \<Rightarrow> World \<Rightarrow> (error + Response) \<times> World" where
  "Do env req w =
     (case RoundTrip env (sent w) req (now w) of
        (res, t) \<Rightarrow> (res, w\<lparr>now := t, sent := sent w @ [req]\<rparr>))"

definition defaultBaseURL :: string where
  "defaultBaseURL = ''https://api.contabo.com''"

definition defaultAuthURL :: string where
  "defaultAuthURL =
     ''https://auth.contabo.com/auth/realms/contabo/protocol/openid-connect/token''"

record Client =
  baseURL :: string
  authURL :: string
  clientID :: string
  secret :: string
  username :: string
  password :: string
  httpTimeout :: int
  accessToken :: string
  expiresAt :: Time

definition NewClientWithAuthURL ::
  "string \<Rightarrow> string \<Rightarrow> string \<Rightarrow> string \<Rightarrow> string \<Rightarrow> string \<Rightarrow> int \<Rightarrow> error + Client" where
  "NewClientWithAuthURL base auth cid sec user pass tmo =
     (if cid = [] \<or> sec = [] \<or> user = [] \<or> pass = []
      then Inl (Error ''clientID, clientSecret, username, and password are required'')
      else Inr \<lparr>baseURL = (if base = [] then defaultBaseURL else base),
                authURL = (if auth = [] then defaultAuthURL else auth),
                clientID = cid, secret = sec, username = user, password = pass,
                httpTimeout = (if tmo = 0 then 15 * Second else tmo),
                accessToken = [], expiresAt = zeroTime\<rparr>)"

definition NewClient ::
  "string \<Rightarrow> string \<Rightarrow> string \<Rightarrow> string \<Rightarrow> string \<Rightarrow> int \<Rightarrow> error + Client" where
  "NewClient base cid sec user pass tmo =
     NewClientWithAuthURL base defaultAuthURL cid sec user pass tmo"

text \<open>The token request \<open>ensureToken\<close> builds, given the request identifier drawn for it.\<close>

definition tokenRequest :: "Env \<Rightarrow> Client \<Rightarrow> string \<Rightarrow> Request" where
  "tokenRequest env c rid =
     \<lparr>Method = ''POST'', URL = authURL c,
      Header = [(''Content-Type'', ''application/x-www-form-urlencoded''),
                (''x-request-id'', rid)],
      Body = Encode env [(''client_id'', clientID c), (''client_secret'', secret c),
                         (''username'', username c), (''password'', password c),
                         (''grant_type'', ''password'')]\<rparr>"

definition ensureToken :: "Env \<Rightarrow> Client \<Rightarrow> World \<Rightarrow> error option \<times> Client \<times> World" where
  "ensureToken env c w =
     (if accessToken c \<noteq> [] \<and> Until (expiresAt c) (now w) > 30 * Second then (None, c, w)
      else
        (case NewRequestWithContext env ''POST'' (authURL c) of
           Some err \<Rightarrow> (Some err, c, w)
         | None \<Rightarrow>
             (case newUUID env w of
                (rid, w1) \<Rightarrow>
                  (case Do env (tokenRequest env c rid) w1 of
                     (Inl err, w2) \<Rightarrow> (Some err, c, w2)
                   | (Inr resp, w2) \<Rightarrow>
                       if StatusCode resp \<ge> 300
                       then (Some (Error (''token request failed: status '' @ Status resp)),
                             c, w2)
                       else
                         (case decodeTokenResponse env (RespBody resp) of
                            Inl err \<Rightarrow> (Some err, c, w2)
                          | Inr token \<Rightarrow>
                              if AccessToken token = []
                              then (Some (Error ''token response missing access_token''),
                                    c, w2)
                              else (None,
                                    c\<lparr>accessToken := AccessToken token,
                                      expiresAt := now w2 + seconds (ExpiresIn token)\<rparr>,
                                    w2))))))"

text \<open>The request \<open>doJSON\<close> builds for a method, a path and a body, given the client after
  \<open>ensureToken\<close> and the request identifier drawn for it.\<close>

definition apiRequest :: "Client \<Rightarrow> string \<Rightarrow> string \<Rightarrow> string \<Rightarrow> string \<Rightarrow> Request" where
  "apiRequest c method path body rid =
     \<lparr>Method = method, URL = baseURL c @ path,
      Header = [(''Authorization'', ''Bearer '' @ accessToken c),
                (''Content-Type'', ''application/json''),
                (''x-request-id'', rid)],
      Body = body\<rparr>"

text \<open>\<open>doJSON\<close>: \<open>reqBody\<close> is \<open>None\<close> for a nil body; \<open>out\<close> is \<open>None\<close> for a nil
  destination and otherwise the decoder of the destination's type. The result is the error,
  or the decoded value when there is a destination. The mutex of the client is not
  modelled: the calls of one run follow one another.\<close>

definition doJSON ::
  "Env \<Rightarrow> Client \<Rightarrow> World \<Rightarrow> string \<Rightarrow> string \<Rightarrow> CreateRecordRequest option
     \<Rightarrow> (string \<Rightarrow> error + 'a) option \<Rightarrow> (error + 'a option) \<times> Client \<times> World" where
  "doJSON env c w method path reqBody out =
     (case ensureToken env c w of
        (Some err, c1, w1) \<Rightarrow> (Inl err, c1, w1)
      | (None, c1, w1) \<Rightarrow>
          (case (case reqBody of None \<Rightarrow> Inr [] | Some rb \<Rightarrow> Marshal env rb) of
             Inl err \<Rightarrow> (Inl err, c1, w1)
           | Inr body \<Rightarrow>
               (case NewRequestWithContext env method (baseURL c1 @ path) of
                  Some err \<Rightarrow> (Inl err, c1, w1)
                | None \<Rightarrow>
                    (case newUUID env w1 of
                       (rid, w2) \<Rightarrow>
                         (case Do env (apiRequest c1 method path body rid) w2 of
                            (Inl err, w3) \<Rightarrow> (Inl err, c1, w3)
                          | (Inr resp, w3) \<Rightarrow>
                              if StatusCode resp \<ge> 300
                              then
                                (let apiErr = decodeApiErrorResponse env (RespBody resp)
                                 in if ErrorMessage apiErr \<noteq> []
                                    then (Inl (Error (''contabo api error: ''
                                                      @ ErrorMessage apiErr)), c1, w3)
                                    else (Inl (Error (''contabo api error: status ''
                                                      @ Status resp)), c1, w3))
                              else
                                (case out of
                                   None \<Rightarrow> (Inr None, c1, w3)
                                 | Some dec \<Rightarrow>
                                     (case dec (RespBody resp) of
                                        Inl err \<Rightarrow> (Inl err, c1, w3)
                                      | Inr v \<Rightarrow> (Inr (Some v), c1, w3))))))))"

text \<open>\<open>CreateRecord\<close> and \<open>DeleteRecord\<close> pass a nil destination (\<open>noOut\<close>) and return the
  error of \<open>doJSON\<close> (\<open>errorOf\<close>); \<open>ListRecords\<close> passes \<open>&resp\<close> and returns \<open>resp.Data\<close>.
  With a destination \<open>doJSON\<close> never succeeds without a value, so the case \<open>Inr None\<close> of
  \<open>ListRecords\<close> is only there to make the case distinction complete.\<close>

definition noOut :: "(string \<Rightarrow> error + unit) option" where
  "noOut = None"

definition errorOf :: "(error + 'a option) \<times> Client \<times> World \<Rightarrow> error option \<times> Client \<times> World" where
  "errorOf r = (case r of (Inl err, c, w) \<Rightarrow> (Some err, c, w) | (Inr v, c, w) \<Rightarrow> (None, c, w))"

definition CreateRecord ::
  "Env \<Rightarrow> Client \<Rightarrow> World \<Rightarrow> string \<Rightarrow> CreateRecordRequest \<Rightarrow> error option \<times> Client \<times> World" where
  "CreateRecord env c w zone req =
     errorOf (doJSON env c w ''POST''
                (''/v1/dns/zones/'' @ PathEscape env zone @ ''/records'') (Some req) noOut)"

definition ListRecords ::
  "Env \<Rightarrow> Client \<Rightarrow> World \<Rightarrow> string \<Rightarrow> string \<Rightarrow> (error + DNSRecord list) \<times> Client \<times> World" where
  "ListRecords env c w zone search =
     (let endpoint = ''/v1/dns/zones/'' @ PathEscape env zone @ ''/records'';
          endpoint1 = (if search \<noteq> [] then endpoint @ ''?search='' @ QueryEscape env search
                       else endpoint)
      in case doJSON env c w ''GET'' endpoint1 None (Some (decodeListRecordsResponse env)) of
           (Inl err, c1, w1) \<Rightarrow> (Inl err, c1, w1)
         | (Inr None, c1, w1) \<Rightarrow> (Inr [], c1, w1)
         | (Inr (Some resp), c1, w1) \<Rightarrow> (Inr (listData resp), c1, w1))"

definition DeleteRecord ::
  "Env \<Rightarrow> Client \<Rightarrow> World \<Rightarrow> string \<Rightarrow> string \<Rightarrow> error option \<times> Client \<times> World" where
  "DeleteRecord env c w zone recordID =
     errorOf (doJSON env c w ''DELETE''
                (''/v1/dns/zones/'' @ PathEscape env zone @ ''/records/''
                 @ PathEscape env recordID) None noOut)"


section \<open>pkg/solver: the name resolver, the record filter and the solver\<close>

definition defaultTTL :: int where
  "defaultTTL = 120"

definition defaultTimeout :: int where
  "defaultTimeout = 15 * Second"

definition secretKeyClientID :: string where
  "secretKeyClientID = ''clientId''"

definition secretKeyClientSecret :: string where
  "secretKeyClientSecret = ''clientSecret''"

definition secretKeyUsername :: string where
  "secretKeyUsername = ''username''"

definition secretKeyPassword :: string where
  "secretKeyPassword = ''password''"

text \<open>\<open>corev1.Secret\<close>: its namespace, its name and its \<open>Data\<close> map. A key that is absent
  reads as the empty byte string, as indexing a Go map does.\<close>

record Secret =
  secretNamespace :: string
  secretName :: string
  secretData :: "string \<rightharpoonup> string"

definition secretValue :: "Secret \<Rightarrow> string \<Rightarrow> string" where
  "secretValue sec k = (case secretData sec k of None \<Rightarrow> [] | Some v \<Rightarrow> v)"

record credentials =
  credClientID :: string
  credClientSecret :: string
  credUsername :: string
  credPassword :: string

text \<open>\<open>Solver\<close>: \<open>client\<close> is the Kubernetes client (\<open>None\<close> before \<open>Initialize\<close>), of which
  the solver uses one call: reading the secret of a name in a namespace.\<close>

record Solver =
  client :: "(string \<Rightarrow> string \<Rightarrow> error + Secret) option"

text \<open>\<open>v1alpha1.ChallengeRequest\<close>, the fields the solver reads; \<open>Config\<close> is the raw JSON
  (\<open>None\<close> for a nil pointer).\<close>

record ChallengeRequest =
  ResourceNamespace :: string
  ResolvedZone :: string
  ResolvedFQDN :: string
  Key :: string
  chConfig :: "string option"

definition ttl :: "Config \<Rightarrow> int" where
  "ttl c = (if cfgTTL c \<le> 0 then defaultTTL else cfgTTL c)"

definition timeout :: "Config \<Rightarrow> int" where
  "timeout c = (if sint (TimeoutSecs c) \<le> 0 then defaultTimeout else seconds (TimeoutSecs c))"

definition loadConfig :: "Env \<Rightarrow> string option \<Rightarrow> error + Config" where
  "loadConfig env rawJSON =
     (case rawJSON of
        None \<Rightarrow> Inl (Error ''config is required'')
      | Some raw \<Rightarrow>
          (case Unmarshal env raw of
             Inl err \<Rightarrow> Inl (Error (''failed to unmarshal config: '' @ message err))
           | Inr cfg \<Rightarrow>
               if CredentialsSecretName cfg = []
               then Inl (Error ''credentialsSecretName is required'')
               else Inr cfg))"

definition credentialsFromSecret :: "Secret \<Rightarrow> error + credentials" where
  "credentialsFromSecret sec =
     (let cid = TrimSpace (secretValue sec secretKeyClientID);
          csec = TrimSpace (secretValue sec secretKeyClientSecret);
          user = TrimSpace (secretValue sec secretKeyUsername);
          pass = TrimSpace (secretValue sec secretKeyPassword)
      in if cid = [] \<or> csec = [] \<or> user = [] \<or> pass = []
         then Inl (Error (''secret '' @ secretNamespace sec @ ''/'' @ secretName sec
                          @ '' must contain non-empty '' @ quoted secretKeyClientID
                          @ '', '' @ quoted secretKeyClientSecret
                          @ '', '' @ quoted secretKeyUsername
                          @ '', and '' @ quoted secretKeyPassword @ '' keys''))
         else Inr \<lparr>credClientID = cid, credClientSecret = csec,
                   credUsername = user, credPassword = pass\<rparr>)"

definition loadCredentials :: "Solver \<Rightarrow> ChallengeRequest \<Rightarrow> Config \<Rightarrow> error + credentials" where
  "loadCredentials s ch cfg =
     (case client s of
        None \<Rightarrow> Inl (Error ''kubernetes client is not initialized'')
      | Some kube \<Rightarrow>
          (let namespace = (if CredentialsSecretNamespace cfg = [] then ResourceNamespace ch
                            else CredentialsSecretNamespace cfg)
           in if namespace = []
              then Inl (Error (''credentialsSecretNamespace is required when challenge ''
                               @ ''resource namespace is empty''))
              else
                (case kube namespace (CredentialsSecretName cfg) of
                   Inl err \<Rightarrow>
                     Inl (Error (''failed to get credentials secret '' @ namespace @ ''/''
                                 @ CredentialsSecretName cfg @ '': '' @ message err))
                 | Inr sec \<Rightarrow> credentialsFromSecret sec)))"

definition newClient :: "Config \<Rightarrow> credentials \<Rightarrow> error + Client" where
  "newClient cfg creds =
     (if AuthURL cfg \<noteq> []
      then NewClientWithAuthURL (BaseURL cfg) (AuthURL cfg) (credClientID creds)
             (credClientSecret creds) (credUsername creds) (credPassword creds) (timeout cfg)
      else NewClient (BaseURL cfg) (credClientID creds) (credClientSecret creds)
             (credUsername creds) (credPassword creds) (timeout cfg))"

definition normalizeZone :: "string \<Rightarrow> string" where
  "normalizeZone zone = TrimSuffix zone ''.''"

definition relativeRecordName :: "string \<Rightarrow> string \<Rightarrow> string" where
  "relativeRecordName fqdn zone =
     (let zone1 = TrimSuffix zone ''.'';
          fqdn1 = TrimSuffix fqdn ''.'';
          trimmed = TrimSuffix fqdn1 (''.'' @ zone1);
          trimmed1 = TrimSuffix trimmed ''.''
      in if trimmed1 = [] then ''@'' else trimmed1)"

definition isACMERecord :: "DNSRecord \<Rightarrow> string \<Rightarrow> string \<Rightarrow> bool" where
  "isACMERecord record name val =
     (if \<not> EqualFold (Type record) ''TXT'' then False
      else if Name record \<noteq> name then False
      else if val \<noteq> [] \<and> Data record \<noteq> val then False
      else True)"

text \<open>
  \<open>Present\<close> and \<open>CleanUp\<close> return their error and the world they leave. The client they
  build lives for the one call. The log lines of \<open>klog\<close> are left out; the context with its
  timeout acts only through the calls of \<open>httpClient.Do\<close>, whose errors \<open>RoundTrip\<close> covers.
\<close>

definition Present :: "Env \<Rightarrow> Solver \<Rightarrow> ChallengeRequest \<Rightarrow> World \<Rightarrow> error option \<times> World" where
  "Present env s ch w =
     (case loadConfig env (chConfig ch) of
        Inl err \<Rightarrow> (Some err, w)
      | Inr cfg \<Rightarrow>
          (case loadCredentials s ch cfg of
             Inl err \<Rightarrow> (Some err, w)
           | Inr creds \<Rightarrow>
               (case newClient cfg creds of
                  Inl err \<Rightarrow> (Some err, w)
                | Inr c \<Rightarrow>
                    (let zone = normalizeZone (ResolvedZone ch);
                         recordName = relativeRecordName (ResolvedFQDN ch) (ResolvedZone ch);
                         req = \<lparr>crName = recordName, crType = ''TXT'', crTTL = ttl cfg,
                                crPrio = 0, crData = Key ch\<rparr>
                     in case CreateRecord env c w zone req of
                          (res, c1, w1) \<Rightarrow> (res, w1)))))"

text \<open>The loop of \<open>CleanUp\<close> over the listed records.\<close>

fun deleteRecords ::
  "Env \<Rightarrow> Client \<Rightarrow> World \<Rightarrow> string \<Rightarrow> string \<Rightarrow> string \<Rightarrow> DNSRecord list
     \<Rightarrow> error option \<times> Client \<times> World" where
  "deleteRecords env c w zone recordName k [] = (None, c, w)"
| "deleteRecords env c w zone recordName k (record # records) =
     (if \<not> isACMERecord record recordName k
      then deleteRecords env c w zone recordName k records
      else
        (case DeleteRecord env c w zone (Sprint (RecordID record)) of
           (Some err, c1, w1) \<Rightarrow> (Some err, c1, w1)
         | (None, c1, w1) \<Rightarrow> deleteRecords env c1 w1 zone recordName k records))"

definition CleanUp :: "Env \<Rightarrow> Solver \<Rightarrow> ChallengeRequest \<Rightarrow> World \<Rightarrow> error option \<times> World" where
  "CleanUp env s ch w =
     (case loadConfig env (chConfig ch) of
        Inl err \<Rightarrow> (Some err, w)
      | Inr cfg \<Rightarrow>
          (case loadCredentials s ch cfg of
             Inl err \<Rightarrow> (Some err, w)
           | Inr creds \<Rightarrow>
               (case newClient cfg creds of
                  Inl err \<Rightarrow> (Some err, w)
                | Inr c \<Rightarrow>
                    (let zone = normalizeZone (ResolvedZone ch);
                         recordName = relativeRecordName (ResolvedFQDN ch) (ResolvedZone ch)
                     in case ListRecords env c w zone recordName of
                          (Inl err, c1, w1) \<Rightarrow> (Some err, w1)
                        | (Inr records, c1, w1) \<Rightarrow>
                            (case deleteRecords env c1 w1 zone recordName (Key ch) records of
                               (res, c2, w2) \<Rightarrow> (res, w2))))))"


section \<open>Observations on the request log\<close>

text \<open>The URL of the delete request for a record, and the URLs of the \<open>DELETE\<close> requests in a
  list of requests, in the order in which they were sent.\<close>

definition deleteURL :: "Env \<Rightarrow> Client \<Rightarrow> string \<Rightarrow> DNSRecord \<Rightarrow> string" where
  "deleteURL env c zone record =
     baseURL c @ ''/v1/dns/zones/'' @ PathEscape env zone @ ''/records/''
     @ PathEscape env (Sprint (RecordID record))"

definition deletesSent :: "Request list \<Rightarrow> string list" where
  "deletesSent reqs = map URL (filter (\<lambda>q. Method q = ''DELETE'') reqs)"


section \<open>A test environment\<close>

text \<open>
  The setting of the repository's test \<open>TestSolverPresentAndCleanUp\<close>, used to evaluate the
  model on concrete inputs: a server (any function from requests to responses) that answers
  after one millisecond, escaping functions that leave the test's zone and record names as
  they are, and decoders that know the bodies of \<open>testServer\<close>. \<open>testServer\<close> answers the
  token request, creates, lists the two records of the test and deletes both.
\<close>

definition record99 :: DNSRecord where
  "record99 = \<lparr>RecordID = 99, Name = ''_acme-challenge'', Type = ''TXT'', Data = ''key'',
                TTL = 120, Prio = 0\<rparr>"

definition record100 :: DNSRecord where
  "record100 = \<lparr>RecordID = 100, Name = ''_acme-challenge'', Type = ''TXT'', Data = ''other'',
                 TTL = 120, Prio = 0\<rparr>"

definition record101 :: DNSRecord where
  "record101 = \<lparr>RecordID = 101, Name = ''_acme-challenge'', Type = ''txt'', Data = ''third'',
                 TTL = 120, Prio = 0\<rparr>"

definition testRecords :: "DNSRecord list" where
  "testRecords = [record99, record100]"

definition testConfig :: Config where
  "testConfig =
     \<lparr>CredentialsSecretName = ''contabo-credentials'', CredentialsSecretNamespace = [],
      BaseURL = ''http://test'', AuthURL = ''http://test/token'', cfgTTL = 0,
      TimeoutSecs = 0\<rparr>"

definition testEnv :: "(Request \<Rightarrow> Response) \<Rightarrow> Env" where
  "testEnv server =
     \<lparr>Marshal = (\<lambda>r. Inr (crName r @ '' '' @ crType r @ '' '' @ crData r)),
      Encode = (\<lambda>form. concat (map (\<lambda>(k, v). k @ ''='' @ v @ ''&'') form)),
      PathEscape = (\<lambda>p. p),
      QueryEscape = (\<lambda>q. q),
      NewRequestWithContext = (\<lambda>method url. None),
      NewString = (\<lambda>n. replicate n (CHR ''u'')),
      RoundTrip = (\<lambda>history req t. (Inr (server req), t + 1000000)),
      decodeTokenResponse =
        (\<lambda>body. if body = ''token''
                then Inr \<lparr>AccessToken = ''token123'', TokenType = ''Bearer'', ExpiresIn = 3600\<rparr>
                else if body = ''long''
                then Inr \<lparr>AccessToken = ''token123'', TokenType = ''Bearer'',
                          ExpiresIn = 9223372037\<rparr>
                else if body = ''empty''
                then Inr \<lparr>AccessToken = [], TokenType = [], ExpiresIn = 0\<rparr>
                else Inl (Error ''invalid character'')),
      decodeApiErrorResponse = (\<lambda>body. \<lparr>ErrorMessage = body\<rparr>),
      decodeListRecordsResponse =
        (\<lambda>body. if body = ''records'' then Inr \<lparr>listData = testRecords\<rparr>
                else if body = ''more'' then Inr \<lparr>listData = testRecords @ [record101]\<rparr>
                else Inl (Error ''EOF'')),
      Unmarshal =
        (\<lambda>raw. if raw = ''cfg'' then Inr testConfig else Inl (Error ''invalid character''))\<rparr>"

definition testServer :: "Request \<Rightarrow> Response" where
  "testServer req =
     (if URL req = ''http://test/token''
      then \<lparr>StatusCode = 200, Status = ''200 OK'', RespBody = ''token''\<rparr>
      else if Method req = ''POST''
      then \<lparr>StatusCode = 201, Status = ''201 Created'', RespBody = []\<rparr>
      else if Method req = ''GET''
      then \<lparr>StatusCode = 200, Status = ''200 OK'', RespBody = ''records''\<rparr>
      else \<lparr>StatusCode = 204, Status = ''204 No Content'', RespBody = []\<rparr>)"

text \<open>A server whose token response carries an \<open>expires_in\<close> of 9223372037 seconds.\<close>

definition longTokenServer :: "Request \<Rightarrow> Response" where
  "longTokenServer req = \<lparr>StatusCode = 200, Status = ''200 OK'', RespBody = ''long''\<rparr>"

definition testSecret :: Secret where
  "testSecret =
     \<lparr>secretNamespace = ''tenant-ns'', secretName = ''contabo-credentials'',
      secretData = [''clientId'' \<mapsto> ''id'', ''clientSecret'' \<mapsto> ''secret'',
                    ''username'' \<mapsto> ''user'', ''password'' \<mapsto> ''pass'']\<rparr>"

definition testSolver :: "Secret \<Rightarrow> Solver" where
  "testSolver sec = \<lparr>client = Some (\<lambda>namespace name. Inr sec)\<rparr>"

definition testChallenge :: ChallengeRequest where
  "testChallenge =
     \<lparr>ResourceNamespace = ''tenant-ns'', ResolvedZone = ''example.com.'',
      ResolvedFQDN = ''_acme-challenge.example.com.'', Key = ''key'',
      chConfig = Some ''cfg''\<rparr>"

definition testClient :: Client where
  "testClient =
     \<lparr>baseURL = ''http://test'', authURL = ''http://test/token'', clientID = ''id'',
      secret = ''secret'', username = ''user'', password = ''pass'',
      httpTimeout = 15 * Second, accessToken = [], expiresAt = zeroTime\<rparr>"

definition testWorld :: World where
  "testWorld = \<lparr>now = 0, sent = [], uuids = 0\<rparr>"

text \<open>A server that refuses the token request, and one that answers the token request and
  refuses every other request with the given body.\<close>

definition unauthorizedServer :: "Request \<Rightarrow> Response" where
  "unauthorizedServer req =
     \<lparr>StatusCode = 401, Status = ''401 Unauthorized'', RespBody = []\<rparr>"

definition notFoundServer :: "string \<Rightarrow> Request \<Rightarrow> Response" where
  "notFoundServer body req =
     (if URL req = ''http://test/token''
      then \<lparr>StatusCode = 200, Status = ''200 OK'', RespBody = ''token''\<rparr>
      else \<lparr>StatusCode = 404, Status = ''404 Not Found'', RespBody = body\<rparr>)"

definition testCredentials :: credentials where
  "testCredentials =
     \<lparr>credClientID = ''id'', credClientSecret = ''secret'', credUsername = ''user'',
      credPassword = ''pass''\<rparr>"

text \<open>A server that lists three records and fails to delete record 100.\<close>

definition deleteFailsServer :: "Request \<Rightarrow> Response" where
  "deleteFailsServer req =
     (if URL req = ''http://test/token''
      then \<lparr>StatusCode = 200, Status = ''200 OK'', RespBody = ''token''\<rparr>
      else if Method req = ''GET''
      then \<lparr>StatusCode = 200, Status = ''200 OK'', RespBody = ''more''\<rparr>
      else if URL req = ''http://test/v1/dns/zones/example.com/records/100''
      then \<lparr>StatusCode = 500, Status = ''500 Internal Server Error'',
            RespBody = ''delete failed''\<rparr>
      else \<lparr>StatusCode = 204, Status = ''204 No Content'', RespBody = []\<rparr>)"

text \<open>\<open>testClient\<close> holding a token that is valid for an hour.\<close>

definition tokenClient :: Client where
  "tokenClient = testClient\<lparr>accessToken := ''token123'', expiresAt := 3600 * Second\<rparr>"


text \<open>A run of \<open>CleanUp\<close> without a proof value against \<open>deleteFailsServer\<close>, step by
  step: the list call, the loop over the first record, and the delete of the second.\<close>

definition abortListed :: "(error + DNSRecord list) \<times> Client \<times> World" where
  "abortListed =
     ListRecords (testEnv deleteFailsServer) testClient testWorld ''example.com''
       ''_acme-challenge''"

definition abortFirst :: "error option \<times> Client \<times> World" where
  "abortFirst =
     deleteRecords (testEnv deleteFailsServer) (fst (snd abortListed)) (snd (snd abortListed))
       ''example.com'' ''_acme-challenge'' [] [record99]"

definition abortSecond :: "error option \<times> Client \<times> World" where
  "abortSecond =
     DeleteRecord (testEnv deleteFailsServer) (fst (snd abortFirst)) (snd (snd abortFirst))
       ''example.com'' (Sprint (RecordID record100))"


text \<open>Two runs of \<open>Present\<close> for the test's challenge against \<open>testServer\<close>, one after the
  other, and the token step of the client of each run.\<close>

definition presentOnce :: "error option \<times> World" where
  "presentOnce = Present (testEnv testServer) (testSolver testSecret) testChallenge testWorld"

definition presentTwice :: "error option \<times> World" where
  "presentTwice =
     Present (testEnv testServer) (testSolver testSecret) testChallenge (snd presentOnce)"

definition tokenOnce :: "error option \<times> Client \<times> World" where
  "tokenOnce = ensureToken (testEnv testServer) testClient testWorld"

definition tokenTwice :: "error option \<times> Client \<times> World" where
  "tokenTwice = ensureToken (testEnv testServer) testClient (snd presentOnce)"


text \<open>The run of \<open>CleanUp\<close> of the test, against \<open>testServer\<close>.\<close>

definition cleanedUp :: "error option \<times> World" where
  "cleanedUp = CleanUp (testEnv testServer) (testSolver testSecret) testChallenge testWorld"


text \<open>The loop of \<open>CleanUp\<close> over the two records of the test, with the proof value
  \<open>key\<close>.\<close>

definition selectiveDelete :: "error option \<times> Client \<times> World" where
  "selectiveDelete =
     deleteRecords (testEnv testServer) tokenClient testWorld ''example.com''
       ''_acme-challenge'' ''key'' testRecords"

text \<open>A secret in which three of the four keys are missing (as in the repository's test
  \<open>TestCredentialsFromSecretErrors\<close>), and the error \<open>credentialsFromSecret\<close> returns for a
  secret.\<close>

definition incompleteSecret :: Secret where
  "incompleteSecret =
     \<lparr>secretNamespace = ''ns'', secretName = ''creds'',
      secretData = [''clientId'' \<mapsto> '' id '']\<rparr>"

definition credentialsError :: "Secret \<Rightarrow> error" where
  "credentialsError sec =
     Error (''secret '' @ secretNamespace sec @ ''/'' @ secretName sec
            @ '' must contain non-empty '' @ quoted ''clientId'' @ '', ''
            @ quoted ''clientSecret'' @ '', '' @ quoted ''username'' @ '', and ''
            @ quoted ''password'' @ '' keys'')"


section \<open>Lemmas on the string functions\<close>

lemma HasSuffix_iff: "HasSuffix s suf \<longleftrightarrow> (\<exists>p. s = p @ suf)"
  unfolding HasSuffix_def
  by (metis append_eq_conv_conj append_take_drop_id diff_add_inverse2 length_append
      le_add2 length_drop)

lemma TrimSuffix_append: "TrimSuffix (p @ suf) suf = p"
  by (simp add: TrimSuffix_def HasSuffix_def)

lemma normalizeZone_strip: "normalizeZone (z @ ''.'') = z"
  by (simp add: normalizeZone_def TrimSuffix_append)

lemma normalizeZone_keep: "\<not> HasSuffix z ''.'' \<Longrightarrow> normalizeZone z = z"
  by (simp add: normalizeZone_def TrimSuffix_def)

lemma HasSuffix_dotdot: "HasSuffix (p @ ''.'') ''..'' \<longleftrightarrow> HasSuffix p ''.''"
  by (auto simp add: HasSuffix_iff)

lemma normalizeZone_fix_iff: "normalizeZone p = p \<longleftrightarrow> \<not> HasSuffix p ''.''"
proof (cases "HasSuffix p ''.''")
  case True
  then obtain q where "p = q @ ''.''" by (auto simp add: HasSuffix_iff)
  with True show ?thesis by (simp add: normalizeZone_strip)
next
  case False
  then show ?thesis by (simp add: normalizeZone_keep)
qed

lemma normalizeZone_idem_iff:
  "normalizeZone (normalizeZone z) = normalizeZone z \<longleftrightarrow> \<not> HasSuffix z ''..''"
proof (cases "HasSuffix z ''.''")
  case False
  then have "\<not> HasSuffix z ''..''"
    by (auto simp add: HasSuffix_iff)
  with False show ?thesis by (simp add: normalizeZone_keep)
next
  case True
  then obtain p where z: "z = p @ ''.''" by (auto simp add: HasSuffix_iff)
  then have "normalizeZone z = p" by (simp add: normalizeZone_strip)
  moreover have "HasSuffix z ''..'' \<longleftrightarrow> HasSuffix p ''.''"
    using z by (simp add: HasSuffix_dotdot)
  ultimately show ?thesis by (simp add: normalizeZone_fix_iff)
qed


lemma spaceWidth_ascii: "asciiSpace c \<Longrightarrow> spaceWidth (c # v) = 1"
  by (cases v rule: spaceWidth.cases) simp_all

lemma TrimLeftSpace_ascii: "list_all asciiSpace v \<Longrightarrow> TrimLeftSpace v = []"
proof (induction v)
  case Nil
  then show ?case by (subst TrimLeftSpace.simps) simp
next
  case (Cons c v)
  then have "spaceWidth (c # v) = 1" by (simp add: spaceWidth_ascii)
  with Cons show ?case by (subst TrimLeftSpace.simps) simp
qed

lemma TrimRightSpaceRev_Nil: "TrimRightSpaceRev [] = []"
  by (subst TrimRightSpaceRev.simps) simp

lemma TrimSpace_ascii: "list_all asciiSpace v \<Longrightarrow> TrimSpace v = []"
  by (simp add: TrimSpace_def TrimLeftSpace_ascii TrimRightSpaceRev_Nil)

lemma TrimSpace_Nil: "TrimSpace [] = []"
  using TrimSpace_ascii [of "[]"] by simp


section \<open>Lemmas on case folding\<close>

lemma of_char_T:
  "of_char a = (84::nat) \<longleftrightarrow> a = CHR ''T''"
  "of_char a = (116::nat) \<longleftrightarrow> a = CHR ''t''"
  "of_char a = (88::nat) \<longleftrightarrow> a = CHR ''X''"
  "of_char a = (120::nat) \<longleftrightarrow> a = CHR ''x''"
  using of_char_eq_iff [of a "CHR ''T''", where ?'a = nat]
    of_char_eq_iff [of a "CHR ''t''", where ?'a = nat]
    of_char_eq_iff [of a "CHR ''X''", where ?'a = nat]
    of_char_eq_iff [of a "CHR ''x''", where ?'a = nat]
  by simp_all

lemma asciiFoldEq_T: "asciiFoldEq a (CHR ''T'') \<longleftrightarrow> a = CHR ''T'' \<or> a = CHR ''t''"
proof (cases "of_char a \<le> (84::nat)")
  case True
  then show ?thesis
    using of_char_T [of a]
    by (auto simp add: asciiFoldEq_def Let_def min_def max_def)
next
  case False
  then show ?thesis
    using of_char_T [of a]
    by (auto simp add: asciiFoldEq_def Let_def min_def max_def)
qed

lemma asciiFoldEq_X: "asciiFoldEq a (CHR ''X'') \<longleftrightarrow> a = CHR ''X'' \<or> a = CHR ''x''"
proof (cases "of_char a \<le> (88::nat)")
  case True
  then show ?thesis
    using of_char_T [of a]
    by (auto simp add: asciiFoldEq_def Let_def min_def max_def)
next
  case False
  then show ?thesis
    using of_char_T [of a]
    by (auto simp add: asciiFoldEq_def Let_def min_def max_def)
qed

lemma EqualFold_T_step:
  "EqualFold (a # s) (CHR ''T'' # t) \<longleftrightarrow> (a = CHR ''T'' \<or> a = CHR ''t'') \<and> EqualFold s t"
proof (cases "of_char a < (128::nat)")
  case True
  then show ?thesis by (simp add: asciiFoldEq_T)
next
  case False
  then have "a \<noteq> CHR ''T''" "a \<noteq> CHR ''t''" by auto
  with False show ?thesis by simp
qed

lemma EqualFold_X_step:
  "EqualFold (a # s) (CHR ''X'' # t) \<longleftrightarrow> (a = CHR ''X'' \<or> a = CHR ''x'') \<and> EqualFold s t"
proof (cases "of_char a < (128::nat)")
  case True
  then show ?thesis by (simp add: asciiFoldEq_X)
next
  case False
  then have "a \<noteq> CHR ''X''" "a \<noteq> CHR ''x''" by auto
  with False show ?thesis by simp
qed

lemma EqualFold_Nil_right: "EqualFold s [] \<longleftrightarrow> s = []"
  by (cases s) simp_all

lemma EqualFold_TXT_shape:
  "EqualFold ty ''TXT'' \<longleftrightarrow>
     (\<exists>a b c. ty = [a, b, c] \<and> (a = CHR ''T'' \<or> a = CHR ''t'')
        \<and> (b = CHR ''X'' \<or> b = CHR ''x'') \<and> (c = CHR ''T'' \<or> c = CHR ''t''))"
proof (cases ty)
  case Nil
  then show ?thesis by simp
next
  case (Cons a ty1)
  note A = this
  show ?thesis
  proof (cases ty1)
    case Nil
    with A show ?thesis by (simp del: EqualFold.simps(4) add: EqualFold_T_step)
  next
    case (Cons b ty2)
    note B = this
    show ?thesis
    proof (cases ty2)
      case Nil
      with A B show ?thesis
        by (simp del: EqualFold.simps(4) add: EqualFold_T_step EqualFold_X_step)
    next
      case (Cons c ty3)
      with A B show ?thesis
        by (auto simp del: EqualFold.simps(4)
            simp add: EqualFold_T_step EqualFold_X_step EqualFold_Nil_right)
    qed
  qed
qed

lemma EqualFold_TXT:
  "EqualFold ty ''TXT'' \<longleftrightarrow>
     ty \<in> {''TXT'', ''TXt'', ''TxT'', ''Txt'', ''tXT'', ''tXt'', ''txT'', ''txt''}"
  unfolding EqualFold_TXT_shape by auto


section \<open>Lemmas on the client\<close>

lemma Do_sent: "Do env req w = (res, w') \<Longrightarrow> sent w' = sent w @ [req] \<and> uuids w' = uuids w"
  by (auto simp add: Do_def split: prod.splits)

lemma newUUID_eq:
  "newUUID env w = (rid, w1) \<Longrightarrow>
     rid = NewString env (uuids w) \<and> sent w1 = sent w \<and> now w1 = now w"
  by (auto simp add: newUUID_def)

lemma Until_gt_iff: "Until t n > 30 * Second \<longleftrightarrow> n + 30 * Second < t"
  by (auto simp add: Until_def Second_def)

lemma ensureToken_cached:
  "accessToken c \<noteq> [] \<Longrightarrow> now w + 30 * Second < expiresAt c
     \<Longrightarrow> ensureToken env c w = (None, c, w)"
  by (simp add: ensureToken_def Until_gt_iff)

lemma ensureToken_sent:
  assumes "ensureToken env c w = (r, c', w')"
  shows "sent w' = sent w
         \<or> sent w' = sent w @ [tokenRequest env c (NewString env (uuids w))]"
  using assms
  by (auto simp add: ensureToken_def Do_def newUUID_def
      split: option.splits prod.splits sum.splits if_splits)

lemma ensureToken_config:
  assumes "ensureToken env c w = (r, c', w')"
  shows "baseURL c' = baseURL c \<and> authURL c' = authURL c"
  using assms
  by (auto simp add: ensureToken_def Do_def newUUID_def
      split: option.splits prod.splits sum.splits if_splits)

lemma ensureToken_refresh:
  assumes "\<not> (accessToken c \<noteq> [] \<and> now w + 30 * Second < expiresAt c)"
    and "ensureToken env c w = (None, c', w')"
  shows "sent w' = sent w @ [tokenRequest env c (NewString env (uuids w))]
         \<and> (\<exists>resp token.
               RoundTrip env (sent w) (tokenRequest env c (NewString env (uuids w))) (now w)
                 = (Inr resp, now w')
               \<and> StatusCode resp < 300
               \<and> decodeTokenResponse env (RespBody resp) = Inr token
               \<and> AccessToken token \<noteq> []
               \<and> c' = c\<lparr>accessToken := AccessToken token,
                         expiresAt := now w' + seconds (ExpiresIn token)\<rparr>)"
  using assms
  by (auto simp add: ensureToken_def Until_gt_iff Do_def newUUID_def
      split: option.splits prod.splits sum.splits if_splits)

lemma seconds_in_range:
  assumes "- 9223372036 \<le> sint n" "sint n \<le> 9223372036"
  shows "seconds n = sint n * Second"
proof -
  have s: "sint (1000000000 :: 64 word) = 1000000000" by simp
  have "sint (n * 1000000000) = signed_take_bit 63 (sint n * 1000000000)"
    using sint_word_ariths(3) [of n "1000000000 :: 64 word"] by (simp add: s)
  moreover have "signed_take_bit 63 (sint n * 1000000000) = sint n * 1000000000"
    using assms by (intro signed_take_bit_int_eq_self) simp_all
  ultimately show ?thesis by (simp add: seconds_def Second_def)
qed


lemma doJSON_ensureToken_error:
  "ensureToken env c w = (Some err, c1, w1) \<Longrightarrow>
     doJSON env c w method path reqBody out = (Inl err, c1, w1)"
  by (simp add: doJSON_def)

lemma ensureToken_failure:
  assumes "\<not> (accessToken c \<noteq> [] \<and> now w + 30 * Second < expiresAt c)"
    and "NewRequestWithContext env ''POST'' (authURL c) = None"
    and "RoundTrip env (sent w) (tokenRequest env c (NewString env (uuids w))) (now w)
           = (Inr resp, t)"
    and "StatusCode resp \<ge> 300
         \<or> (\<exists>e. decodeTokenResponse env (RespBody resp) = Inl e)
         \<or> (\<exists>token. decodeTokenResponse env (RespBody resp) = Inr token
                      \<and> AccessToken token = [])"
  shows "ensureToken env c w =
     (Some (if StatusCode resp \<ge> 300
            then Error (''token request failed: status '' @ Status resp)
            else case decodeTokenResponse env (RespBody resp) of
                   Inl e \<Rightarrow> e
                 | Inr token \<Rightarrow> Error ''token response missing access_token''),
      c,
      w\<lparr>uuids := Suc (uuids w), now := t,
        sent := sent w @ [tokenRequest env c (NewString env (uuids w))]\<rparr>)"
  using assms
  by (auto simp add: ensureToken_def Until_gt_iff Do_def newUUID_def
      split: option.splits prod.splits sum.splits if_splits)

lemma newClient_fresh:
  "newClient cfg creds = Inr c \<Longrightarrow> accessToken c = []"
  by (auto simp add: newClient_def NewClient_def NewClientWithAuthURL_def split: if_splits)

lemma ensureToken_sent_toks:
  assumes "ensureToken env c w = (r, c', w')"
  obtains toks where "sent w' = sent w @ toks"
    and "toks = [] \<or> toks = [tokenRequest env c (NewString env (uuids w))]"
  using ensureToken_sent [OF assms] by (metis append_Nil2)

lemma doJSON_sent:
  assumes "doJSON env c w method path reqBody out = (r, c', w')"
  shows "baseURL c' = baseURL c \<and> authURL c' = authURL c
     \<and> (\<exists>toks. (toks = [] \<or> toks = [tokenRequest env c (NewString env (uuids w))])
           \<and> ((sent w' = sent w @ toks \<and> (\<exists>err. r = Inl err))
                \<or> (\<exists>body rid. sent w' = sent w @ toks @ [apiRequest c' method path body rid]
                       \<and> (case reqBody of None \<Rightarrow> Inr [] | Some rb \<Rightarrow> Marshal env rb)
                           = Inr body)))"
proof (cases "ensureToken env c w")
  case (fields res c1 w1)
  note e = this
  from ensureToken_config [OF e]
  have b: "baseURL c1 = baseURL c" "authURL c1 = authURL c" by simp_all
  from e obtain toks where t: "sent w1 = sent w @ toks"
    and tk: "toks = [] \<or> toks = [tokenRequest env c (NewString env (uuids w))]"
    by (rule ensureToken_sent_toks)
  have "c' = c1 \<and> ((w' = w1 \<and> (\<exists>err. r = Inl err))
        \<or> (\<exists>body rid. sent w' = sent w1 @ [apiRequest c1 method path body rid]
              \<and> (case reqBody of None \<Rightarrow> Inr [] | Some rb \<Rightarrow> Marshal env rb) = Inr body))"
    using e assms
    by (cases res)
      (auto simp add: doJSON_def Do_def newUUID_def Let_def
        split: option.splits prod.splits sum.splits if_splits)
  then have c: "c' = c1"
    and d: "(sent w' = sent w @ toks \<and> (\<exists>err. r = Inl err))
        \<or> (\<exists>body rid. sent w' = sent w @ toks @ [apiRequest c' method path body rid]
              \<and> (case reqBody of None \<Rightarrow> Inr [] | Some rb \<Rightarrow> Marshal env rb) = Inr body)"
    using t by auto
  from b c tk d show ?thesis by blast
qed


lemma deletesSent_simps:
  "deletesSent [] = []"
  "deletesSent (xs @ ys) = deletesSent xs @ deletesSent ys"
  "deletesSent [tokenRequest env c rid] = []"
  "deletesSent [apiRequest c ''DELETE'' path body rid] = [baseURL c @ path]"
  by (simp_all add: deletesSent_def tokenRequest_def apiRequest_def)

lemma DeleteRecord_sent:
  assumes "DeleteRecord env c w zone (Sprint (RecordID record)) = (r, c', w')"
  shows "baseURL c' = baseURL c
     \<and> (\<exists>pre. sent w' = sent w @ pre
           \<and> (deletesSent pre = [] \<and> r \<noteq> None
                \<or> deletesSent pre = [deleteURL env c zone record]))"
proof (cases "doJSON env c w ''DELETE''
                (''/v1/dns/zones/'' @ PathEscape env zone @ ''/records/''
                 @ PathEscape env (Sprint (RecordID record))) None noOut")
  case (fields rj cj wj)
  note j = this
  with assms have eq: "c' = cj" "w' = wj" and r: "(\<exists>err. rj = Inl err) \<longrightarrow> r \<noteq> None"
    by (auto simp add: DeleteRecord_def errorOf_def split: sum.splits)
  from doJSON_sent [OF j] obtain toks where b: "baseURL cj = baseURL c"
    and tk: "toks = [] \<or> toks = [tokenRequest env c (NewString env (uuids w))]"
    and d: "(sent wj = sent w @ toks \<and> (\<exists>err. rj = Inl err))
        \<or> (\<exists>body rid. sent wj = sent w @ toks
               @ [apiRequest cj ''DELETE''
                    (''/v1/dns/zones/'' @ PathEscape env zone @ ''/records/''
                     @ PathEscape env (Sprint (RecordID record))) body rid])"
    by blast
  from tk have t0: "deletesSent toks = []" by (auto simp add: deletesSent_simps)
  from d show ?thesis
  proof
    assume "sent wj = sent w @ toks \<and> (\<exists>err. rj = Inl err)"
    with r eq b t0 show ?thesis by auto
  next
    assume "\<exists>body rid. sent wj = sent w @ toks
               @ [apiRequest cj ''DELETE''
                    (''/v1/dns/zones/'' @ PathEscape env zone @ ''/records/''
                     @ PathEscape env (Sprint (RecordID record))) body rid]"
    then obtain body rid where
      s: "sent wj = sent w @ (toks @ [apiRequest cj ''DELETE''
                    (''/v1/dns/zones/'' @ PathEscape env zone @ ''/records/''
                     @ PathEscape env (Sprint (RecordID record))) body rid])"
      by auto
    have "deletesSent (toks @ [apiRequest cj ''DELETE''
                    (''/v1/dns/zones/'' @ PathEscape env zone @ ''/records/''
                     @ PathEscape env (Sprint (RecordID record))) body rid])
            = [deleteURL env c zone record]"
      using t0 b by (simp add: deletesSent_simps deleteURL_def)
    with s eq b show ?thesis by blast
  qed
qed

lemma deleteURL_cong: "baseURL c1 = baseURL c \<Longrightarrow> deleteURL env c1 zone = deleteURL env c zone"
  by (rule ext) (simp add: deleteURL_def)

lemma deleteRecords_sent:
  assumes "deleteRecords env c w zone name k rs = (r, c', w')"
  shows "baseURL c' = baseURL c
     \<and> (\<exists>pre n. sent w' = sent w @ pre
           \<and> deletesSent pre
               = take n (map (deleteURL env c zone) (filter (\<lambda>x. isACMERecord x name k) rs))
           \<and> (r = None \<longrightarrow> deletesSent pre
               = map (deleteURL env c zone) (filter (\<lambda>x. isACMERecord x name k) rs)))"
  using assms
proof (induction rs arbitrary: c w)
  case Nil
  then show ?case by (simp add: deletesSent_simps)
next
  case (Cons x rs)
  show ?case
  proof (cases "isACMERecord x name k")
    case False
    with Cons.prems have "deleteRecords env c w zone name k rs = (r, c', w')" by simp
    from Cons.IH [OF this] False show ?thesis by simp
  next
    case True
    obtain r1 c1 w1 where
      d: "DeleteRecord env c w zone (Sprint (RecordID x)) = (r1, c1, w1)"
      by (cases "DeleteRecord env c w zone (Sprint (RecordID x))") auto
    from DeleteRecord_sent [OF d] obtain pre1 where b1: "baseURL c1 = baseURL c"
      and s1: "sent w1 = sent w @ pre1"
      and p1: "deletesSent pre1 = [] \<and> r1 \<noteq> None
                \<or> deletesSent pre1 = [deleteURL env c zone x]"
      by blast
    show ?thesis
    proof (cases r1)
      case (Some err)
      with d True Cons.prems have e: "r = Some err" "c' = c1" "w' = w1" by simp_all
      have f4: "baseURL c' = baseURL c" using b1 e by simp
      have f1: "sent w' = sent w @ pre1" using s1 e by simp
      have f3: "r = None \<longrightarrow> deletesSent pre1
          = map (deleteURL env c zone) (filter (\<lambda>x. isACMERecord x name k) (x # rs))"
        using e by simp
      from p1 show ?thesis
      proof
        assume "deletesSent pre1 = [] \<and> r1 \<noteq> None"
        then have f2: "deletesSent pre1 = take 0 (map (deleteURL env c zone)
                                      (filter (\<lambda>x. isACMERecord x name k) (x # rs)))"
          by simp
        show ?thesis
          by (intro conjI exI [of _ pre1] exI [of _ 0]) (rule f4 f1 f2 f3)+
      next
        assume "deletesSent pre1 = [deleteURL env c zone x]"
        then have f2: "deletesSent pre1 = take 1 (map (deleteURL env c zone)
                                      (filter (\<lambda>x. isACMERecord x name k) (x # rs)))"
          using True by simp
        show ?thesis
          by (intro conjI exI [of _ pre1] exI [of _ 1]) (rule f4 f1 f2 f3)+
      qed
    next
      case None
      with d True Cons.prems have
        rest: "deleteRecords env c1 w1 zone name k rs = (r, c', w')" by simp
      from p1 None have p1': "deletesSent pre1 = [deleteURL env c zone x]" by simp
      from Cons.IH [OF rest] obtain pre2 n where b2: "baseURL c' = baseURL c1"
        and s2: "sent w' = sent w1 @ pre2"
        and p2: "deletesSent pre2
               = take n (map (deleteURL env c1 zone) (filter (\<lambda>x. isACMERecord x name k) rs))"
        and q2: "r = None \<longrightarrow> deletesSent pre2
               = map (deleteURL env c1 zone) (filter (\<lambda>x. isACMERecord x name k) rs)"
        by blast
      have u: "deleteURL env c1 zone = deleteURL env c zone"
        using b1 by (rule deleteURL_cong)
      have f1: "sent w' = sent w @ (pre1 @ pre2)" using s1 s2 by simp
      have f2: "deletesSent (pre1 @ pre2)
          = take (Suc n) (map (deleteURL env c zone)
                           (filter (\<lambda>x. isACMERecord x name k) (x # rs)))"
        using p1' p2 u True by (simp add: deletesSent_simps)
      have f3: "r = None \<longrightarrow> deletesSent (pre1 @ pre2)
          = map (deleteURL env c zone) (filter (\<lambda>x. isACMERecord x name k) (x # rs))"
        using p1' q2 u True by (simp add: deletesSent_simps)
      have f4: "baseURL c' = baseURL c" using b1 b2 by simp
      show ?thesis
        by (intro conjI exI [of _ "pre1 @ pre2"] exI [of _ "Suc n"]) (rule f4 f1 f2 f3)+
    qed
  qed
qed

lemma deleteRecords_append_abort:
  assumes "deleteRecords env c w zone name k xs = (None, c1, w1)"
    and "isACMERecord r name k"
    and "DeleteRecord env c1 w1 zone (Sprint (RecordID r)) = (Some err, c2, w2)"
  shows "deleteRecords env c w zone name k (xs @ r # ys) = (Some err, c2, w2)"
  using assms
proof (induction xs arbitrary: c w)
  case Nil
  then show ?case by simp
next
  case (Cons x xs)
  show ?case
  proof (cases "isACMERecord x name k")
    case False
    with Cons show ?thesis by simp
  next
    case True
    with Cons.prems(1) obtain c0 w0 where
      "DeleteRecord env c w zone (Sprint (RecordID x)) = (None, c0, w0)"
      "deleteRecords env c0 w0 zone name k xs = (None, c1, w1)"
      by (auto split: prod.splits option.splits)
    with Cons.IH [OF _ Cons.prems(2,3)] True show ?thesis by simp
  qed
qed

lemma triple_collapse: "fst x = a \<Longrightarrow> x = (a, fst (snd x), snd (snd x))"
  by (cases x) auto

lemma doJSON_request_sent:
  assumes "ensureToken env c w = (None, c1, w1)"
    and "(case reqBody of None \<Rightarrow> Inr [] | Some rb \<Rightarrow> Marshal env rb) = Inr body"
    and "NewRequestWithContext env method (baseURL c @ path) = None"
  shows "sent (snd (snd (doJSON env c w method path reqBody out)))
           = sent w1 @ [apiRequest c1 method path body (NewString env (uuids w1))]"
proof -
  have "baseURL c1 = baseURL c" using ensureToken_config [OF assms(1)] by simp
  with assms show ?thesis
    by (auto simp add: doJSON_def Do_def newUUID_def Let_def
        split: option.splits prod.splits sum.splits if_splits)
qed

lemma snd_errorOf: "snd (snd (errorOf x)) = snd (snd x)"
  by (cases x) (auto simp add: errorOf_def split: sum.splits)

lemma snd_case3: "snd (case x of (r, c1, w1) \<Rightarrow> (r, w1)) = snd (snd x)"
  by (cases x) auto

lemma Present_sent_success:
  assumes "loadConfig env (chConfig ch) = Inr cfg"
    and "loadCredentials s ch cfg = Inr creds"
    and "newClient cfg creds = Inr c"
    and "Marshal env \<lparr>crName = relativeRecordName (ResolvedFQDN ch) (ResolvedZone ch),
                       crType = ''TXT'', crTTL = ttl cfg, crPrio = 0, crData = Key ch\<rparr>
           = Inr body"
    and "NewRequestWithContext env ''POST''
           (baseURL c @ ''/v1/dns/zones/'' @ PathEscape env (normalizeZone (ResolvedZone ch))
            @ ''/records'') = None"
    and "ensureToken env c w = (None, c1, w1)"
  shows "sent (snd (Present env s ch w))
           = sent w @ [tokenRequest env c (NewString env (uuids w)),
                       apiRequest c1 ''POST''
                         (''/v1/dns/zones/'' @ PathEscape env (normalizeZone (ResolvedZone ch))
                          @ ''/records'')
                         body (NewString env (uuids w1))]"
proof -
  have f: "\<not> (accessToken c \<noteq> [] \<and> now w + 30 * Second < expiresAt c)"
    using newClient_fresh [OF assms(3)] by simp
  have t: "sent w1 = sent w @ [tokenRequest env c (NewString env (uuids w))]"
    using ensureToken_refresh [OF f assms(6)] by simp
  have "snd (Present env s ch w)
          = snd (snd (doJSON env c w ''POST''
                        (''/v1/dns/zones/'' @ PathEscape env (normalizeZone (ResolvedZone ch))
                         @ ''/records'')
                        (Some \<lparr>crName = relativeRecordName (ResolvedFQDN ch) (ResolvedZone ch),
                               crType = ''TXT'', crTTL = ttl cfg,
                               crPrio = 0, crData = Key ch\<rparr>) noOut))"
    using assms(1-3)
    by (simp add: Present_def CreateRecord_def Let_def snd_errorOf snd_case3)
  moreover have "sent (snd (snd (doJSON env c w ''POST''
                        (''/v1/dns/zones/'' @ PathEscape env (normalizeZone (ResolvedZone ch))
                         @ ''/records'')
                        (Some \<lparr>crName = relativeRecordName (ResolvedFQDN ch) (ResolvedZone ch),
                               crType = ''TXT'', crTTL = ttl cfg,
                               crPrio = 0, crData = Key ch\<rparr>) noOut)))
      = sent w1 @ [apiRequest c1 ''POST''
                         (''/v1/dns/zones/'' @ PathEscape env (normalizeZone (ResolvedZone ch))
                          @ ''/records'')
                         body (NewString env (uuids w1))]"
    using assms(4,5) by (intro doJSON_request_sent [OF assms(6)]) simp_all
  ultimately show ?thesis using t by simp
qed

lemma Present_only_posts:
  assumes "Present env s ch w = (res, w')"
  shows "\<exists>pre. sent w' = sent w @ pre \<and> list_all (\<lambda>q. Method q = ''POST'') pre"
proof (cases "\<exists>cfg creds c. loadConfig env (chConfig ch) = Inr cfg
                \<and> loadCredentials s ch cfg = Inr creds \<and> newClient cfg creds = Inr c")
  case False
  with assms have "w' = w"
    by (auto simp add: Present_def split: sum.splits)
  then show ?thesis by simp
next
  case True
  then obtain cfg creds c where h: "loadConfig env (chConfig ch) = Inr cfg"
    "loadCredentials s ch cfg = Inr creds" "newClient cfg creds = Inr c" by blast
  obtain rj cj wj where j: "doJSON env c w ''POST''
        (''/v1/dns/zones/'' @ PathEscape env (normalizeZone (ResolvedZone ch)) @ ''/records'')
        (Some \<lparr>crName = relativeRecordName (ResolvedFQDN ch) (ResolvedZone ch),
               crType = ''TXT'', crTTL = ttl cfg, crPrio = 0, crData = Key ch\<rparr>) noOut
        = (rj, cj, wj)"
    by (metis prod_cases3)
  with h assms have w': "w' = wj"
    by (auto simp add: Present_def CreateRecord_def Let_def errorOf_def
        split: prod.splits sum.splits)
  from doJSON_sent [OF j] obtain toks where
    tk: "toks = [] \<or> toks = [tokenRequest env c (NewString env (uuids w))]"
    and d: "sent wj = sent w @ toks
        \<or> (\<exists>body rid. sent wj = sent w @ toks @ [apiRequest cj ''POST''
              (''/v1/dns/zones/'' @ PathEscape env (normalizeZone (ResolvedZone ch))
               @ ''/records'') body rid])"
    by blast
  from tk have p: "list_all (\<lambda>q. Method q = ''POST'') toks"
    by (auto simp add: tokenRequest_def)
  from d show ?thesis
  proof
    assume "sent wj = sent w @ toks"
    with p w' show ?thesis by blast
  next
    assume "\<exists>body rid. sent wj = sent w @ toks @ [apiRequest cj ''POST''
              (''/v1/dns/zones/'' @ PathEscape env (normalizeZone (ResolvedZone ch))
               @ ''/records'') body rid]"
    then obtain body rid where "sent wj = sent w @ (toks @ [apiRequest cj ''POST''
              (''/v1/dns/zones/'' @ PathEscape env (normalizeZone (ResolvedZone ch))
               @ ''/records'') body rid])" by auto
    moreover have "list_all (\<lambda>q. Method q = ''POST'') (toks @ [apiRequest cj ''POST''
              (''/v1/dns/zones/'' @ PathEscape env (normalizeZone (ResolvedZone ch))
               @ ''/records'') body rid])"
      using p by (simp add: apiRequest_def)
    ultimately show ?thesis using w' by blast
  qed
qed

lemma relativeRecordName_nonempty: "relativeRecordName fqdn zone \<noteq> []"
  by (simp add: relativeRecordName_def Let_def)

lemma doJSON_methods:
  assumes "doJSON env c w method path reqBody out = (r, c', w')"
  shows "\<exists>pre. sent w' = sent w @ pre
           \<and> (\<forall>q\<in>set pre. Method q = ''POST''
                  \<or> (Method q = method \<and> URL q = baseURL c @ path))"
proof -
  from doJSON_sent [OF assms] obtain toks where b: "baseURL c' = baseURL c"
    and tk: "toks = [] \<or> toks = [tokenRequest env c (NewString env (uuids w))]"
    and d: "sent w' = sent w @ toks
        \<or> (\<exists>body rid. sent w' = sent w @ toks @ [apiRequest c' method path body rid])"
    by blast
  from tk have p: "\<forall>q\<in>set toks. Method q = ''POST''"
    by (auto simp add: tokenRequest_def)
  from d show ?thesis
  proof
    assume "sent w' = sent w @ toks"
    with p show ?thesis by blast
  next
    assume "\<exists>body rid. sent w' = sent w @ toks @ [apiRequest c' method path body rid]"
    then obtain body rid where
      s: "sent w' = sent w @ (toks @ [apiRequest c' method path body rid])" by auto
    have "\<forall>q\<in>set (toks @ [apiRequest c' method path body rid]).
            Method q = ''POST'' \<or> (Method q = method \<and> URL q = baseURL c @ path)"
      using p b by (simp add: apiRequest_def)
    with s show ?thesis by blast
  qed
qed

lemma DeleteRecord_methods:
  assumes "DeleteRecord env c w zone rid = (r, c', w')"
  shows "\<exists>pre. sent w' = sent w @ pre
           \<and> (\<forall>q\<in>set pre. Method q = ''POST'' \<or> Method q = ''DELETE'')"
proof (cases "doJSON env c w ''DELETE''
                (''/v1/dns/zones/'' @ PathEscape env zone @ ''/records/''
                 @ PathEscape env rid) None noOut")
  case (fields rj cj wj)
  with assms have "w' = wj"
    by (auto simp add: DeleteRecord_def errorOf_def split: sum.splits)
  with doJSON_methods [OF fields] show ?thesis by blast
qed

lemma deleteRecords_methods:
  assumes "deleteRecords env c w zone name k rs = (r, c', w')"
  shows "\<exists>pre. sent w' = sent w @ pre
           \<and> (\<forall>q\<in>set pre. Method q = ''POST'' \<or> Method q = ''DELETE'')"
  using assms
proof (induction rs arbitrary: c w)
  case Nil
  then show ?case by simp
next
  case (Cons x rs)
  show ?case
  proof (cases "isACMERecord x name k")
    case False
    with Cons.prems have "deleteRecords env c w zone name k rs = (r, c', w')" by simp
    then show ?thesis by (rule Cons.IH)
  next
    case True
    obtain r1 c1 w1 where
      d: "DeleteRecord env c w zone (Sprint (RecordID x)) = (r1, c1, w1)"
      by (metis prod_cases3)
    from DeleteRecord_methods [OF d] obtain pre1 where s1: "sent w1 = sent w @ pre1"
      and m1: "\<forall>q\<in>set pre1. Method q = ''POST'' \<or> Method q = ''DELETE''" by blast
    show ?thesis
    proof (cases r1)
      case (Some err)
      with d True Cons.prems have "w' = w1" by simp
      with s1 m1 show ?thesis by blast
    next
      case None
      with d True Cons.prems have
        "deleteRecords env c1 w1 zone name k rs = (r, c', w')" by simp
      from Cons.IH [OF this] obtain pre2 where s2: "sent w' = sent w1 @ pre2"
        and m2: "\<forall>q\<in>set pre2. Method q = ''POST'' \<or> Method q = ''DELETE''" by blast
      have "sent w' = sent w @ (pre1 @ pre2)" using s1 s2 by simp
      moreover have "\<forall>q\<in>set (pre1 @ pre2). Method q = ''POST'' \<or> Method q = ''DELETE''"
        using m1 m2 by auto
      ultimately show ?thesis by blast
    qed
  qed
qed

lemma ListRecords_methods:
  assumes "ListRecords env c w zone search = (r, c', w')" and "search \<noteq> []"
  shows "\<exists>pre. sent w' = sent w @ pre
           \<and> (\<forall>q\<in>set pre. Method q = ''POST''
                  \<or> (Method q = ''GET''
                      \<and> URL q = baseURL c @ ''/v1/dns/zones/'' @ PathEscape env zone
                                @ ''/records?search='' @ QueryEscape env search))"
proof (cases "doJSON env c w ''GET''
                (''/v1/dns/zones/'' @ PathEscape env zone @ ''/records?search=''
                 @ QueryEscape env search) None (Some (decodeListRecordsResponse env))")
  case (fields rj cj wj)
  with assms have "w' = wj"
    by (auto simp add: ListRecords_def Let_def split: sum.splits option.splits)
  with doJSON_methods [OF fields] show ?thesis by auto
qed


section \<open>Claims\<close>

text \<open>
  C1. A record of the list is selected for deletion (\<open>isACMERecord\<close> holds, the test of the
  loop of \<open>CleanUp\<close>) if and only if its type is \<open>"TXT"\<close> in some mix of upper and lower
  case, its name is exactly the resolved relative record name, and the proof value is empty
  or is exactly the record's data. A loop that ends without error has sent the delete
  requests of exactly the records that pass this test, in list order.
\<close>

theorem isACMERecord_selects:
  "(isACMERecord r name val \<longleftrightarrow>
      Type r \<in> {''TXT'', ''TXt'', ''TxT'', ''Txt'', ''tXT'', ''tXt'', ''txT'', ''txt''}
      \<and> Name r = name
      \<and> (val = [] \<or> Data r = val))
   \<and> (deleteRecords env c w zone name val records = (None, c', w') \<longrightarrow>
        (\<exists>pre. sent w' = sent w @ pre
           \<and> deletesSent pre
               = map (deleteURL env c zone)
                   (filter (\<lambda>x. Type x \<in> {''TXT'', ''TXt'', ''TxT'', ''Txt'',
                                            ''tXT'', ''tXt'', ''txT'', ''txt''}
                                \<and> Name x = name \<and> (val = [] \<or> Data x = val))
                      records)))"
proof -
  have a: "isACMERecord r name val \<longleftrightarrow>
      Type r \<in> {''TXT'', ''TXt'', ''TxT'', ''Txt'', ''tXT'', ''tXt'', ''txT'', ''txt''}
      \<and> Name r = name
      \<and> (val = [] \<or> Data r = val)" for r
    unfolding isACMERecord_def EqualFold_TXT by auto
  have b: "\<exists>pre. sent w' = sent w @ pre
           \<and> deletesSent pre
               = map (deleteURL env c zone)
                   (filter (\<lambda>x. Type x \<in> {''TXT'', ''TXt'', ''TxT'', ''Txt'',
                                            ''tXT'', ''tXt'', ''txT'', ''txt''}
                                \<and> Name x = name \<and> (val = [] \<or> Data x = val))
                      records)"
    if h: "deleteRecords env c w zone name val records = (None, c', w')"
    using deleteRecords_sent [OF h] unfolding a by auto
  from a [of r] b show ?thesis by blast
qed

text \<open>The example of the specification: of two TXT records \<open>_acme-challenge\<close> with data
  \<open>v1\<close> and \<open>v2\<close>, the proof value \<open>v1\<close> selects the first only; and of the two records
  of the repository's test, the proof value \<open>key\<close> deletes record 99 only.\<close>

theorem isACMERecord_selects_witness:
  "isACMERecord \<lparr>RecordID = 1, Name = ''_acme-challenge'', Type = ''TXT'', Data = ''v1'',
                  TTL = 120, Prio = 0\<rparr> ''_acme-challenge'' ''v1''
   \<and> \<not> isACMERecord \<lparr>RecordID = 2, Name = ''_acme-challenge'', Type = ''TXT'', Data = ''v2'',
                       TTL = 120, Prio = 0\<rparr> ''_acme-challenge'' ''v1''
   \<and> isACMERecord \<lparr>RecordID = 2, Name = ''_acme-challenge'', Type = ''txt'', Data = ''v2'',
                     TTL = 120, Prio = 0\<rparr> ''_acme-challenge'' []
   \<and> fst selectiveDelete = None
   \<and> deletesSent (sent (snd (snd selectiveDelete)))
       = [''http://test/v1/dns/zones/example.com/records/99'']"
proof -
  note T =
    isACMERecord_selects [where r = "\<lparr>RecordID = 1, Name = ''_acme-challenge'',
        Type = ''TXT'', Data = ''v1'', TTL = 120, Prio = 0\<rparr>"
      and name = "''_acme-challenge''" and val = "''v1''", THEN conjunct1]
    isACMERecord_selects [where r = "\<lparr>RecordID = 2, Name = ''_acme-challenge'',
        Type = ''TXT'', Data = ''v2'', TTL = 120, Prio = 0\<rparr>"
      and name = "''_acme-challenge''" and val = "''v1''", THEN conjunct1]
    isACMERecord_selects [where r = "\<lparr>RecordID = 2, Name = ''_acme-challenge'',
        Type = ''txt'', Data = ''v2'', TTL = 120, Prio = 0\<rparr>"
      and name = "''_acme-challenge''" and val = "[]", THEN conjunct1]
  have s: "fst selectiveDelete = None" by code_simp
  have d: "deletesSent (sent (snd (snd selectiveDelete)))
       = [''http://test/v1/dns/zones/example.com/records/99'']" by code_simp
  from T s d show ?thesis by simp
qed

text \<open>
  C2. The loop of \<open>CleanUp\<close> visits the listed records in order. When it has gone through
  the records \<open>xs\<close> without error, the \<open>DELETE\<close> requests sent so far are those of the
  matching records of \<open>xs\<close>, in list order. When the delete of the next matching record
  \<open>r\<close> then returns an error, the loop (and \<open>CleanUp\<close>) returns that error with the
  client and the world as that delete left them, whatever records \<open>ys\<close> follow: no delete
  of \<open>ys\<close> is attempted, the failing call sent at most its own delete request, and the log
  of requests only grew (nothing is undone or retried).
\<close>

theorem CleanUp_deletes_in_order_and_aborts:
  assumes "deleteRecords env c w zone name k xs = (None, c1, w1)"
    and "isACMERecord r name k"
    and "DeleteRecord env c1 w1 zone (Sprint (RecordID r)) = (Some err, c2, w2)"
  shows "deleteRecords env c w zone name k (xs @ r # ys) = (Some err, c2, w2)
     \<and> (\<exists>pre. sent w1 = sent w @ pre
           \<and> deletesSent pre
               = map (deleteURL env c zone) (filter (\<lambda>x. isACMERecord x name k) xs))
     \<and> (\<exists>post. sent w2 = sent w1 @ post
           \<and> (deletesSent post = [] \<or> deletesSent post = [deleteURL env c zone r]))
     \<and> (loadConfig env (chConfig ch) = Inr cfg \<and> loadCredentials s ch cfg = Inr creds
          \<and> newClient cfg creds = Inr c0
          \<and> zone = normalizeZone (ResolvedZone ch)
          \<and> name = relativeRecordName (ResolvedFQDN ch) (ResolvedZone ch)
          \<and> k = Key ch
          \<and> ListRecords env c0 w0 zone name = (Inr (xs @ r # ys), c, w)
         \<longrightarrow> CleanUp env s ch w0 = (Some err, w2))"
proof -
  have a: "deleteRecords env c w zone name k (xs @ r # ys) = (Some err, c2, w2)"
    using assms by (rule deleteRecords_append_abort)
  from deleteRecords_sent [OF assms(1)]
  have b: "\<exists>pre. sent w1 = sent w @ pre
           \<and> deletesSent pre
               = map (deleteURL env c zone) (filter (\<lambda>x. isACMERecord x name k) xs)"
    and u: "baseURL c1 = baseURL c"
    by auto
  from DeleteRecord_sent [OF assms(3)] u
  have d: "\<exists>post. sent w2 = sent w1 @ post
           \<and> (deletesSent post = [] \<or> deletesSent post = [deleteURL env c zone r])"
    by (auto simp add: deleteURL_def)
  have e: "loadConfig env (chConfig ch) = Inr cfg \<and> loadCredentials s ch cfg = Inr creds
          \<and> newClient cfg creds = Inr c0
          \<and> zone = normalizeZone (ResolvedZone ch)
          \<and> name = relativeRecordName (ResolvedFQDN ch) (ResolvedZone ch)
          \<and> k = Key ch
          \<and> ListRecords env c0 w0 zone name = (Inr (xs @ r # ys), c, w)
         \<longrightarrow> CleanUp env s ch w0 = (Some err, w2)"
    using a by (auto simp add: CleanUp_def Let_def)
  from a b d e show ?thesis by blast
qed

theorem CleanUp_deletes_in_order_and_aborts_witness:
  "fst abortListed = Inr ([record99] @ record100 # [record101])
   \<and> fst abortFirst = None
   \<and> isACMERecord record100 ''_acme-challenge'' []
   \<and> fst abortSecond = Some (Error ''contabo api error: delete failed'')
   \<and> deleteRecords (testEnv deleteFailsServer) (fst (snd abortListed)) (snd (snd abortListed))
        ''example.com'' ''_acme-challenge'' [] ([record99] @ record100 # [record101])
       = (Some (Error ''contabo api error: delete failed''),
          fst (snd abortSecond), snd (snd abortSecond))
   \<and> deletesSent (sent (snd (snd abortSecond)))
       = [''http://test/v1/dns/zones/example.com/records/99'',
          ''http://test/v1/dns/zones/example.com/records/100'']
   \<and> loadConfig (testEnv deleteFailsServer) (chConfig (testChallenge\<lparr>Key := []\<rparr>))
       = Inr testConfig
   \<and> loadCredentials (testSolver testSecret) (testChallenge\<lparr>Key := []\<rparr>) testConfig
       = Inr testCredentials
   \<and> newClient testConfig testCredentials = Inr testClient
   \<and> CleanUp (testEnv deleteFailsServer) (testSolver testSecret)
        (testChallenge\<lparr>Key := []\<rparr>) testWorld
       = (Some (Error ''contabo api error: delete failed''), snd (snd abortSecond))"
proof -
  have l: "fst abortListed = Inr ([record99] @ record100 # [record101])" by code_simp
  have f: "fst abortFirst = None" by code_simp
  have m: "isACMERecord record100 ''_acme-challenge'' []" by code_simp
  have s: "fst abortSecond = Some (Error ''contabo api error: delete failed'')" by code_simp
  have d: "deletesSent (sent (snd (snd abortSecond)))
       = [''http://test/v1/dns/zones/example.com/records/99'',
          ''http://test/v1/dns/zones/example.com/records/100'']" by code_simp
  have g: "loadConfig (testEnv deleteFailsServer) (chConfig (testChallenge\<lparr>Key := []\<rparr>))
       = Inr testConfig" by code_simp
  have c: "loadCredentials (testSolver testSecret) (testChallenge\<lparr>Key := []\<rparr>) testConfig
       = Inr testCredentials" by code_simp
  have n: "newClient testConfig testCredentials = Inr testClient" by code_simp
  have z: "''example.com'' = normalizeZone (ResolvedZone (testChallenge\<lparr>Key := []\<rparr>))"
    by code_simp
  have r: "''_acme-challenge''
      = relativeRecordName (ResolvedFQDN (testChallenge\<lparr>Key := []\<rparr>))
          (ResolvedZone (testChallenge\<lparr>Key := []\<rparr>))"
    by code_simp
  have k: "[] = Key (testChallenge\<lparr>Key := []\<rparr>)" by code_simp
  have h1: "deleteRecords (testEnv deleteFailsServer) (fst (snd abortListed))
              (snd (snd abortListed)) ''example.com'' ''_acme-challenge'' [] [record99]
            = (None, fst (snd abortFirst), snd (snd abortFirst))"
    by (subst abortFirst_def [symmetric]) (rule triple_collapse [OF f])
  have h3: "DeleteRecord (testEnv deleteFailsServer) (fst (snd abortFirst))
              (snd (snd abortFirst)) ''example.com'' (Sprint (RecordID record100))
            = (Some (Error ''contabo api error: delete failed''),
               fst (snd abortSecond), snd (snd abortSecond))"
    by (subst abortSecond_def [symmetric]) (rule triple_collapse [OF s])
  have hl: "ListRecords (testEnv deleteFailsServer) testClient testWorld ''example.com''
              ''_acme-challenge''
            = (Inr ([record99] @ record100 # [record101]),
               fst (snd abortListed), snd (snd abortListed))"
    by (subst abortListed_def [symmetric]) (rule triple_collapse [OF l])
  note T = CleanUp_deletes_in_order_and_aborts
    [where ys = "[record101]" and ch = "testChallenge\<lparr>Key := []\<rparr>" and cfg = testConfig
      and s = "testSolver testSecret" and creds = testCredentials and ?c0.0 = testClient
      and ?w0.0 = testWorld, OF h1 m h3]
  from T g c n z r k hl l f m s d show ?thesis by blast
qed

text \<open>
  C3 (the code at the inputs of the repository's own test \<open>TestRelativeRecordNameRoot\<close>).
  When the FQDN equals the zone, \<open>relativeRecordName\<close> looks for the suffix
  \<open>"." + zone\<close>, which is longer than the FQDN, strips nothing and returns the zone name
  instead of \<open>"@"\<close>.
\<close>

theorem relativeRecordName_apex_returns_zone:
  "relativeRecordName ''example.com.'' ''example.com.'' = ''example.com''
   \<and> relativeRecordName ''example.com'' ''example.com.'' = ''example.com''
   \<and> relativeRecordName ''example.com.'' ''example.com.'' \<noteq> ''@''"
  by (simp add: relativeRecordName_def TrimSuffix_def HasSuffix_def)

text \<open>
  C4 (as amended). \<open>ensureToken\<close> returns without error and without sending a request if
  and only if a token is present and the time now plus 30 seconds is earlier than the stored
  expiry; it then leaves the client and the world as they are. Otherwise a success means
  that exactly the token request was sent, that the token is the one of the response, and
  that the new expiry is the time at which the response arrived plus the \<open>int64\<close> product
  of \<open>expires_in\<close> and \<open>time.Second\<close>: that is \<open>expires_in\<close> seconds whenever
  \<open>expires_in\<close> lies between -9223372036 and 9223372036, the seconds a \<open>time.Duration\<close> can
  hold.
\<close>

theorem ensureToken_reuse_or_refresh:
  assumes "ensureToken env c w = (res, c', w')"
  shows "((res = None \<and> sent w' = sent w)
            \<longleftrightarrow> (accessToken c \<noteq> [] \<and> now w + 30 * Second < expiresAt c))
     \<and> (accessToken c \<noteq> [] \<and> now w + 30 * Second < expiresAt c \<longrightarrow> c' = c \<and> w' = w)
     \<and> (\<not> (accessToken c \<noteq> [] \<and> now w + 30 * Second < expiresAt c) \<and> res = None \<longrightarrow>
          sent w' = sent w @ [tokenRequest env c (NewString env (uuids w))]
          \<and> (\<exists>resp token.
               RoundTrip env (sent w) (tokenRequest env c (NewString env (uuids w))) (now w)
                 = (Inr resp, now w')
               \<and> decodeTokenResponse env (RespBody resp) = Inr token
               \<and> accessToken c' = AccessToken token
               \<and> expiresAt c' = now w' + seconds (ExpiresIn token)
               \<and> (- 9223372036 \<le> sint (ExpiresIn token) \<and> sint (ExpiresIn token) \<le> 9223372036
                    \<longrightarrow> expiresAt c' = now w' + sint (ExpiresIn token) * Second)))"
proof (cases "accessToken c \<noteq> [] \<and> now w + 30 * Second < expiresAt c")
  case True
  then have "ensureToken env c w = (None, c, w)"
    by (simp add: ensureToken_cached)
  with assms True show ?thesis by simp
next
  case False
  show ?thesis
  proof (cases res)
    case (Some err)
    with False show ?thesis by auto
  next
    case None
    with assms have e: "ensureToken env c w = (None, c', w')" by simp
    from ensureToken_refresh [OF False e]
    obtain resp token where
      s: "sent w' = sent w @ [tokenRequest env c (NewString env (uuids w))]"
      and r: "RoundTrip env (sent w) (tokenRequest env c (NewString env (uuids w))) (now w)
                = (Inr resp, now w')"
      and d: "decodeTokenResponse env (RespBody resp) = Inr token"
      and c': "c' = c\<lparr>accessToken := AccessToken token,
                       expiresAt := now w' + seconds (ExpiresIn token)\<rparr>"
      by blast
    have "sent w' \<noteq> sent w" using s by simp
    moreover have "accessToken c' = AccessToken token"
      "expiresAt c' = now w' + seconds (ExpiresIn token)"
      using c' by simp_all
    ultimately show ?thesis
      using False None s r d by (auto simp add: seconds_in_range)
  qed
qed

theorem ensureToken_reuse_or_refresh_witness:
  "ensureToken (testEnv testServer) testClient testWorld
     = (None,
        testClient\<lparr>accessToken := ''token123'', expiresAt := 1000000 + 3600 * Second\<rparr>,
        \<lparr>now = 1000000, sent = [tokenRequest (testEnv testServer) testClient []], uuids = 1\<rparr>)
   \<and> accessToken testClient = []
   \<and> ensureToken (testEnv testServer)
        (testClient\<lparr>accessToken := ''token123'', expiresAt := 1000000 + 3600 * Second\<rparr>)
        \<lparr>now = 1000000, sent = [tokenRequest (testEnv testServer) testClient []], uuids = 1\<rparr>
     = (None,
        testClient\<lparr>accessToken := ''token123'', expiresAt := 1000000 + 3600 * Second\<rparr>,
        \<lparr>now = 1000000, sent = [tokenRequest (testEnv testServer) testClient []], uuids = 1\<rparr>)
   \<and> (1000000::int) + 30 * Second < 1000000 + 3600 * Second"
  using ensureToken_reuse_or_refresh [of "testEnv testServer" testClient testWorld None
      "testClient\<lparr>accessToken := ''token123'', expiresAt := 1000000 + 3600 * Second\<rparr>"
      "\<lparr>now = 1000000, sent = [tokenRequest (testEnv testServer) testClient []], uuids = 1\<rparr>"]
  by (simp add: ensureToken_def testEnv_def testServer_def testClient_def testWorld_def
      Until_def Second_def zeroTime_def newUUID_def Do_def tokenRequest_def seconds_def)

text \<open>
  C4 as stated fails: for an \<open>expires_in\<close> of 9223372037 seconds the product with
  \<open>time.Second\<close> wraps around, and the new expiry lies in the past instead of at now plus
  \<open>expires_in\<close> seconds.
\<close>

theorem ensureToken_expiry_wraps:
  "fst (ensureToken (testEnv longTokenServer) testClient testWorld) = None
   \<and> now (snd (snd (ensureToken (testEnv longTokenServer) testClient testWorld))) = 1000000
   \<and> decodeTokenResponse (testEnv longTokenServer) ''long''
       = Inr \<lparr>AccessToken = ''token123'', TokenType = ''Bearer'', ExpiresIn = 9223372037\<rparr>
   \<and> expiresAt (fst (snd (ensureToken (testEnv longTokenServer) testClient testWorld)))
       = 1000000 - 9223372036709551616
   \<and> expiresAt (fst (snd (ensureToken (testEnv longTokenServer) testClient testWorld)))
       \<noteq> 1000000 + 9223372037 * Second"
  by (simp add: ensureToken_def testEnv_def longTokenServer_def testClient_def testWorld_def
      Until_def Second_def zeroTime_def newUUID_def Do_def tokenRequest_def seconds_def)

text \<open>
  C5. Every request \<open>Present\<close> sends is a \<open>POST\<close>: it never lists records before creating.
  When the configuration and the credentials load and the token request of the run
  succeeds, the run sends, after the token request, exactly one create request: a \<open>POST\<close>
  to the record collection of the normalized zone whose body is the JSON of the record with
  the resolved relative name, type \<open>TXT\<close>, the configured TTL (120 when it is not
  positive), priority 0 and the proof value as data. A second run for the same challenge
  sends the same create again.
\<close>

theorem Present_creates_every_time:
  assumes "Present env s ch w = (res1, w')"
    and "Present env s ch w' = (res2, w'')"
  shows "(\<exists>pre. sent w' = sent w @ pre \<and> list_all (\<lambda>q. Method q = ''POST'') pre)
     \<and> (loadConfig env (chConfig ch) = Inr cfg
        \<and> loadCredentials s ch cfg = Inr creds
        \<and> newClient cfg creds = Inr c
        \<and> Marshal env \<lparr>crName = relativeRecordName (ResolvedFQDN ch) (ResolvedZone ch),
                        crType = ''TXT'',
                        crTTL = (if cfgTTL cfg \<le> 0 then 120 else cfgTTL cfg),
                        crPrio = 0, crData = Key ch\<rparr> = Inr body
        \<and> url = baseURL c @ ''/v1/dns/zones/''
                  @ PathEscape env (normalizeZone (ResolvedZone ch)) @ ''/records''
        \<and> NewRequestWithContext env ''POST'' url = None
        \<and> ensureToken env c w = (None, c1, w1)
        \<and> ensureToken env c w' = (None, c2, w2)
       \<longrightarrow> sent w' = sent w @
              [tokenRequest env c (NewString env (uuids w)),
               \<lparr>Method = ''POST'', URL = url,
                Header = [(''Authorization'', ''Bearer '' @ accessToken c1),
                          (''Content-Type'', ''application/json''),
                          (''x-request-id'', NewString env (uuids w1))],
                Body = body\<rparr>]
         \<and> sent w'' = sent w' @
              [tokenRequest env c (NewString env (uuids w')),
               \<lparr>Method = ''POST'', URL = url,
                Header = [(''Authorization'', ''Bearer '' @ accessToken c2),
                          (''Content-Type'', ''application/json''),
                          (''x-request-id'', NewString env (uuids w2))],
                Body = body\<rparr>])"
proof -
  have a: "\<exists>pre. sent w' = sent w @ pre \<and> list_all (\<lambda>q. Method q = ''POST'') pre"
    using assms(1) by (rule Present_only_posts)
  have b: "sent w' = sent w @
              [tokenRequest env c (NewString env (uuids w)),
               \<lparr>Method = ''POST'', URL = url,
                Header = [(''Authorization'', ''Bearer '' @ accessToken c1),
                          (''Content-Type'', ''application/json''),
                          (''x-request-id'', NewString env (uuids w1))],
                Body = body\<rparr>]
         \<and> sent w'' = sent w' @
              [tokenRequest env c (NewString env (uuids w')),
               \<lparr>Method = ''POST'', URL = url,
                Header = [(''Authorization'', ''Bearer '' @ accessToken c2),
                          (''Content-Type'', ''application/json''),
                          (''x-request-id'', NewString env (uuids w2))],
                Body = body\<rparr>]"
    if h: "loadConfig env (chConfig ch) = Inr cfg"
      "loadCredentials s ch cfg = Inr creds"
      "newClient cfg creds = Inr c"
      "Marshal env \<lparr>crName = relativeRecordName (ResolvedFQDN ch) (ResolvedZone ch),
                        crType = ''TXT'',
                        crTTL = (if cfgTTL cfg \<le> 0 then 120 else cfgTTL cfg),
                        crPrio = 0, crData = Key ch\<rparr> = Inr body"
      "url = baseURL c @ ''/v1/dns/zones/''
                  @ PathEscape env (normalizeZone (ResolvedZone ch)) @ ''/records''"
      "NewRequestWithContext env ''POST'' url = None"
      "ensureToken env c w = (None, c1, w1)"
      "ensureToken env c w' = (None, c2, w2)"
  proof -
    have tt: "ttl cfg = (if cfgTTL cfg \<le> 0 then 120 else cfgTTL cfg)"
      by (simp add: ttl_def defaultTTL_def)
    have m: "Marshal env \<lparr>crName = relativeRecordName (ResolvedFQDN ch) (ResolvedZone ch),
                       crType = ''TXT'', crTTL = ttl cfg, crPrio = 0, crData = Key ch\<rparr>
           = Inr body"
      using h(4) by (simp only: tt)
    have n: "NewRequestWithContext env ''POST''
           (baseURL c @ ''/v1/dns/zones/'' @ PathEscape env (normalizeZone (ResolvedZone ch))
            @ ''/records'') = None"
      using h(5,6) by simp
    have u1: "baseURL c1 = baseURL c" using ensureToken_config [OF h(7)] by simp
    have u2: "baseURL c2 = baseURL c" using ensureToken_config [OF h(8)] by simp
    from Present_sent_success [OF h(1-3) m n h(7)] assms(1) u1 h(5)
    have 1: "sent w' = sent w @
              [tokenRequest env c (NewString env (uuids w)),
               \<lparr>Method = ''POST'', URL = url,
                Header = [(''Authorization'', ''Bearer '' @ accessToken c1),
                          (''Content-Type'', ''application/json''),
                          (''x-request-id'', NewString env (uuids w1))],
                Body = body\<rparr>]"
      by (simp add: apiRequest_def)
    from Present_sent_success [OF h(1-3) m n h(8)] assms(2) u2 h(5)
    have 2: "sent w'' = sent w' @
              [tokenRequest env c (NewString env (uuids w')),
               \<lparr>Method = ''POST'', URL = url,
                Header = [(''Authorization'', ''Bearer '' @ accessToken c2),
                          (''Content-Type'', ''application/json''),
                          (''x-request-id'', NewString env (uuids w2))],
                Body = body\<rparr>]"
      by (simp add: apiRequest_def)
    from 1 2 show ?thesis by simp
  qed
  from a b show ?thesis by blast
qed


theorem Present_creates_every_time_witness:
  "loadConfig (testEnv testServer) (chConfig testChallenge) = Inr testConfig
   \<and> loadCredentials (testSolver testSecret) testChallenge testConfig = Inr testCredentials
   \<and> newClient testConfig testCredentials = Inr testClient
   \<and> Marshal (testEnv testServer)
        \<lparr>crName = relativeRecordName (ResolvedFQDN testChallenge) (ResolvedZone testChallenge),
         crType = ''TXT'',
         crTTL = (if cfgTTL testConfig \<le> 0 then 120 else cfgTTL testConfig),
         crPrio = 0, crData = Key testChallenge\<rparr> = Inr ''_acme-challenge TXT key''
   \<and> NewRequestWithContext (testEnv testServer) ''POST''
        ''http://test/v1/dns/zones/example.com/records'' = None
   \<and> fst tokenOnce = None
   \<and> fst tokenTwice = None
   \<and> sent (snd presentOnce) = sent testWorld @
        [tokenRequest (testEnv testServer) testClient
           (NewString (testEnv testServer) (uuids testWorld)),
         \<lparr>Method = ''POST'', URL = ''http://test/v1/dns/zones/example.com/records'',
          Header = [(''Authorization'', ''Bearer '' @ accessToken (fst (snd tokenOnce))),
                    (''Content-Type'', ''application/json''),
                    (''x-request-id'',
                     NewString (testEnv testServer) (uuids (snd (snd tokenOnce))))],
          Body = ''_acme-challenge TXT key''\<rparr>]
   \<and> sent (snd presentTwice) = sent (snd presentOnce) @
        [tokenRequest (testEnv testServer) testClient
           (NewString (testEnv testServer) (uuids (snd presentOnce))),
         \<lparr>Method = ''POST'', URL = ''http://test/v1/dns/zones/example.com/records'',
          Header = [(''Authorization'', ''Bearer '' @ accessToken (fst (snd tokenTwice))),
                    (''Content-Type'', ''application/json''),
                    (''x-request-id'',
                     NewString (testEnv testServer) (uuids (snd (snd tokenTwice))))],
          Body = ''_acme-challenge TXT key''\<rparr>]
   \<and> map (\<lambda>q. (Method q, URL q, Body q)) (sent (snd presentTwice))
       = [(''POST'', ''http://test/token'',
           ''client_id=id&client_secret=secret&username=user&password=pass&grant_type=password&''),
          (''POST'', ''http://test/v1/dns/zones/example.com/records'',
           ''_acme-challenge TXT key''),
          (''POST'', ''http://test/token'',
           ''client_id=id&client_secret=secret&username=user&password=pass&grant_type=password&''),
          (''POST'', ''http://test/v1/dns/zones/example.com/records'',
           ''_acme-challenge TXT key'')]"
proof -
  have g: "loadConfig (testEnv testServer) (chConfig testChallenge) = Inr testConfig"
    by code_simp
  have c: "loadCredentials (testSolver testSecret) testChallenge testConfig
             = Inr testCredentials" by code_simp
  have n: "newClient testConfig testCredentials = Inr testClient" by code_simp
  have m: "Marshal (testEnv testServer)
        \<lparr>crName = relativeRecordName (ResolvedFQDN testChallenge) (ResolvedZone testChallenge),
         crType = ''TXT'',
         crTTL = (if cfgTTL testConfig \<le> 0 then 120 else cfgTTL testConfig),
         crPrio = 0, crData = Key testChallenge\<rparr> = Inr ''_acme-challenge TXT key''"
    by code_simp
  have u: "''http://test/v1/dns/zones/example.com/records''
      = baseURL testClient @ ''/v1/dns/zones/''
        @ PathEscape (testEnv testServer) (normalizeZone (ResolvedZone testChallenge))
        @ ''/records''" by code_simp
  have q: "NewRequestWithContext (testEnv testServer) ''POST''
        ''http://test/v1/dns/zones/example.com/records'' = None" by code_simp
  have t1: "fst tokenOnce = None" by code_simp
  have t2: "fst tokenTwice = None" by code_simp
  have e1: "ensureToken (testEnv testServer) testClient testWorld
      = (None, fst (snd tokenOnce), snd (snd tokenOnce))"
    by (subst tokenOnce_def [symmetric]) (rule triple_collapse [OF t1])
  have e2: "ensureToken (testEnv testServer) testClient (snd presentOnce)
      = (None, fst (snd tokenTwice), snd (snd tokenTwice))"
    by (subst tokenTwice_def [symmetric]) (rule triple_collapse [OF t2])
  have p1: "Present (testEnv testServer) (testSolver testSecret) testChallenge testWorld
      = (fst presentOnce, snd presentOnce)"
    by (simp add: presentOnce_def)
  have p2: "Present (testEnv testServer) (testSolver testSecret) testChallenge
              (snd presentOnce) = (fst presentTwice, snd presentTwice)"
    by (simp add: presentTwice_def)
  have v: "map (\<lambda>q. (Method q, URL q, Body q)) (sent (snd presentTwice))
       = [(''POST'', ''http://test/token'',
           ''client_id=id&client_secret=secret&username=user&password=pass&grant_type=password&''),
          (''POST'', ''http://test/v1/dns/zones/example.com/records'',
           ''_acme-challenge TXT key''),
          (''POST'', ''http://test/token'',
           ''client_id=id&client_secret=secret&username=user&password=pass&grant_type=password&''),
          (''POST'', ''http://test/v1/dns/zones/example.com/records'',
           ''_acme-challenge TXT key'')]"
    by code_simp
  note T = Present_creates_every_time
    [OF p1 p2, where cfg = testConfig and creds = testCredentials and c = testClient
      and body = "''_acme-challenge TXT key''"
      and url = "''http://test/v1/dns/zones/example.com/records''"
      and ?c1.0 = "fst (snd tokenOnce)" and ?w1.0 = "snd (snd tokenOnce)"
      and ?c2.0 = "fst (snd tokenTwice)" and ?w2.0 = "snd (snd tokenTwice)"]
  from T g c n m u q e1 e2 t1 t2 v show ?thesis by blast
qed

text \<open>
  C6. When a client call needs a token and the token request is answered with a status of
  300 or more, with a body that does not parse, or with an empty \<open>access_token\<close>, then
  \<open>CreateRecord\<close>, \<open>ListRecords\<close> and \<open>DeleteRecord\<close> return the error of \<open>ensureToken\<close>
  (the failed status, the decoder's error, or the missing token), and the token request is
  the only request sent: no create, list or delete request reaches the record API. The
  client that \<open>Present\<close> and \<open>CleanUp\<close> build holds no token, so they return that error
  with nothing but the token request sent.
\<close>

theorem auth_failure_sends_no_record_request:
  assumes "\<not> (accessToken c \<noteq> [] \<and> now w + 30 * Second < expiresAt c)"
    and "NewRequestWithContext env ''POST'' (authURL c) = None"
    and "RoundTrip env (sent w) (tokenRequest env c (NewString env (uuids w))) (now w)
           = (Inr resp, t)"
    and "StatusCode resp \<ge> 300
         \<or> (\<exists>e. decodeTokenResponse env (RespBody resp) = Inl e)
         \<or> (\<exists>token. decodeTokenResponse env (RespBody resp) = Inr token
                      \<and> AccessToken token = [])"
    and "err = (if StatusCode resp \<ge> 300
                then Error (''token request failed: status '' @ Status resp)
                else case decodeTokenResponse env (RespBody resp) of
                       Inl e \<Rightarrow> e
                     | Inr token \<Rightarrow> Error ''token response missing access_token'')"
    and "w' = w\<lparr>uuids := Suc (uuids w), now := t,
                 sent := sent w @ [tokenRequest env c (NewString env (uuids w))]\<rparr>"
  shows "CreateRecord env c w zone req = (Some err, c, w')
       \<and> ListRecords env c w zone search = (Inl err, c, w')
       \<and> DeleteRecord env c w zone recordID = (Some err, c, w')
       \<and> (loadConfig env (chConfig ch) = Inr cfg \<and> loadCredentials s ch cfg = Inr creds
            \<and> newClient cfg creds = Inr c
           \<longrightarrow> Present env s ch w = (Some err, w') \<and> CleanUp env s ch w = (Some err, w'))"
proof -
  have e: "ensureToken env c w = (Some err, c, w')"
    using ensureToken_failure [OF assms(1-4)] assms(5,6) by simp
  have d: "\<And>method path reqBody out.
      doJSON env c w method path reqBody out = (Inl err, c, w')"
    by (rule doJSON_ensureToken_error [OF e])
  have cr: "\<And>zone req. CreateRecord env c w zone req = (Some err, c, w')"
    by (simp add: CreateRecord_def d errorOf_def)
  have li: "\<And>zone search. ListRecords env c w zone search = (Inl err, c, w')"
    by (simp add: ListRecords_def d Let_def)
  have de: "DeleteRecord env c w zone recordID = (Some err, c, w')"
    by (simp add: DeleteRecord_def d errorOf_def)
  show ?thesis
    using cr li de by (simp add: Present_def CleanUp_def Let_def)
qed


theorem auth_failure_sends_no_record_request_witness:
  "accessToken testClient = []
   \<and> NewRequestWithContext (testEnv unauthorizedServer) ''POST'' (authURL testClient) = None
   \<and> RoundTrip (testEnv unauthorizedServer) (sent testWorld)
        (tokenRequest (testEnv unauthorizedServer) testClient
           (NewString (testEnv unauthorizedServer) (uuids testWorld))) (now testWorld)
       = (Inr \<lparr>StatusCode = 401, Status = ''401 Unauthorized'', RespBody = []\<rparr>, 1000000)
   \<and> (300::int) \<le> 401
   \<and> CreateRecord (testEnv unauthorizedServer) testClient testWorld ''example.com''
        \<lparr>crName = ''_acme-challenge'', crType = ''TXT'', crTTL = 120, crPrio = 0,
         crData = ''key''\<rparr>
       = (Some (Error ''token request failed: status 401 Unauthorized''), testClient,
          \<lparr>now = 1000000,
           sent = [tokenRequest (testEnv unauthorizedServer) testClient []], uuids = 1\<rparr>)
   \<and> ListRecords (testEnv unauthorizedServer) testClient testWorld ''example.com''
        ''_acme-challenge''
       = (Inl (Error ''token request failed: status 401 Unauthorized''), testClient,
          \<lparr>now = 1000000,
           sent = [tokenRequest (testEnv unauthorizedServer) testClient []], uuids = 1\<rparr>)
   \<and> DeleteRecord (testEnv unauthorizedServer) testClient testWorld ''example.com'' ''99''
       = (Some (Error ''token request failed: status 401 Unauthorized''), testClient,
          \<lparr>now = 1000000,
           sent = [tokenRequest (testEnv unauthorizedServer) testClient []], uuids = 1\<rparr>)
   \<and> loadConfig (testEnv unauthorizedServer) (chConfig testChallenge) = Inr testConfig
   \<and> loadCredentials (testSolver testSecret) testChallenge testConfig = Inr testCredentials
   \<and> newClient testConfig testCredentials = Inr testClient
   \<and> Present (testEnv unauthorizedServer) (testSolver testSecret) testChallenge testWorld
       = (Some (Error ''token request failed: status 401 Unauthorized''),
          \<lparr>now = 1000000,
           sent = [tokenRequest (testEnv unauthorizedServer) testClient []], uuids = 1\<rparr>)
   \<and> CleanUp (testEnv unauthorizedServer) (testSolver testSecret) testChallenge testWorld
       = (Some (Error ''token request failed: status 401 Unauthorized''),
          \<lparr>now = 1000000,
           sent = [tokenRequest (testEnv unauthorizedServer) testClient []], uuids = 1\<rparr>)"
proof -
  have l: "loadConfig (testEnv unauthorizedServer) (chConfig testChallenge) = Inr testConfig"
    by code_simp
  have c: "loadCredentials (testSolver testSecret) testChallenge testConfig
             = Inr testCredentials"
    by code_simp
  have n: "newClient testConfig testCredentials = Inr testClient"
    by code_simp
  have a: "accessToken testClient = []" by (simp add: testClient_def)
  have q: "NewRequestWithContext (testEnv unauthorizedServer) ''POST'' (authURL testClient)
             = None"
    by (simp add: testEnv_def)
  have r: "RoundTrip (testEnv unauthorizedServer) (sent testWorld)
        (tokenRequest (testEnv unauthorizedServer) testClient
           (NewString (testEnv unauthorizedServer) (uuids testWorld))) (now testWorld)
       = (Inr \<lparr>StatusCode = 401, Status = ''401 Unauthorized'', RespBody = []\<rparr>, 1000000)"
    by (simp add: testEnv_def unauthorizedServer_def testWorld_def)
  have h1: "\<not> (accessToken testClient \<noteq> []
                 \<and> now testWorld + 30 * Second < expiresAt testClient)"
    by (simp add: testClient_def)
  have h4: "StatusCode \<lparr>StatusCode = 401, Status = ''401 Unauthorized'', RespBody = []\<rparr>
              \<ge> 300
         \<or> (\<exists>e. decodeTokenResponse (testEnv unauthorizedServer)
                 (RespBody \<lparr>StatusCode = 401, Status = ''401 Unauthorized'',
                            RespBody = []\<rparr>) = Inl e)
         \<or> (\<exists>token. decodeTokenResponse (testEnv unauthorizedServer)
                 (RespBody \<lparr>StatusCode = 401, Status = ''401 Unauthorized'',
                            RespBody = []\<rparr>) = Inr token
                      \<and> AccessToken token = [])"
    by simp
  have h5: "Error ''token request failed: status 401 Unauthorized'' =
     (if StatusCode \<lparr>StatusCode = 401, Status = ''401 Unauthorized'', RespBody = []\<rparr>
           \<ge> 300
      then Error (''token request failed: status ''
                  @ Status \<lparr>StatusCode = 401, Status = ''401 Unauthorized'',
                            RespBody = []\<rparr>)
      else case decodeTokenResponse (testEnv unauthorizedServer)
                  (RespBody \<lparr>StatusCode = 401, Status = ''401 Unauthorized'',
                             RespBody = []\<rparr>) of
             Inl e \<Rightarrow> e
           | Inr token \<Rightarrow> Error ''token response missing access_token'')"
    by simp
  have h6: "\<lparr>now = 1000000,
             sent = [tokenRequest (testEnv unauthorizedServer) testClient []], uuids = 1\<rparr>
          = testWorld\<lparr>uuids := Suc (uuids testWorld), now := 1000000,
              sent := sent testWorld
                @ [tokenRequest (testEnv unauthorizedServer) testClient
                     (NewString (testEnv unauthorizedServer) (uuids testWorld))]\<rparr>"
    by (simp add: testWorld_def testEnv_def)
  note T = auth_failure_sends_no_record_request
      [where zone = "''example.com''"
        and req = "\<lparr>crName = ''_acme-challenge'', crType = ''TXT'', crTTL = 120,
          crPrio = 0, crData = ''key''\<rparr>"
        and search = "''_acme-challenge''" and recordID = "''99''"
        and ch = testChallenge and cfg = testConfig and s = "testSolver testSecret"
        and creds = testCredentials, OF h1 q r h4 h5 h6]
  have k: "(300::int) \<le> 401" by simp
  from T l c n a q r k show ?thesis by blast
qed

text \<open>
  C7 (as amended). \<open>normalizeZone\<close> strips exactly one trailing \<open>'.'\<close> when one is
  present and returns every other string unchanged; applying it twice gives the same result
  as applying it once exactly for the strings that do not end in \<open>".."\<close>.
\<close>

theorem normalizeZone_strips_one_dot:
  "normalizeZone (z @ ''.'') = z
   \<and> (\<not> HasSuffix z ''.'' \<longrightarrow> normalizeZone z = z)
   \<and> (normalizeZone (normalizeZone z) = normalizeZone z \<longleftrightarrow> \<not> HasSuffix z ''..'')"
  by (simp add: normalizeZone_strip normalizeZone_keep normalizeZone_idem_iff)

theorem normalizeZone_strips_one_dot_witness:
  "normalizeZone (''example.com'' @ ''.'') = ''example.com''
   \<and> \<not> HasSuffix ''example.com'' ''.''
   \<and> normalizeZone ''example.com'' = ''example.com''
   \<and> \<not> HasSuffix ''example.com'' ''..''
   \<and> normalizeZone (normalizeZone ''example.com'') = normalizeZone ''example.com''"
  using normalizeZone_strips_one_dot [of "''example.com''"]
  by (simp add: HasSuffix_def)

text \<open>
  C7 as stated fails: on a zone that ends in two dots the second application strips the
  second dot, so \<open>normalizeZone\<close> is not idempotent there.
\<close>

theorem normalizeZone_not_idempotent:
  "normalizeZone (normalizeZone ''example.com..'') \<noteq> normalizeZone ''example.com..''"
  by (simp add: normalizeZone_def TrimSuffix_def HasSuffix_def)

text \<open>
  C8. When the record API answers a request of \<open>doJSON\<close> (the one path of \<open>CreateRecord\<close>,
  \<open>ListRecords\<close> and \<open>DeleteRecord\<close>) with a status of 300 or more, the client returns the
  error \<open>contabo api error:\<close> followed by the message decoded from the body when that
  message is not empty, and by \<open>status\<close> and the HTTP status line otherwise.
\<close>

theorem doJSON_status_error:
  assumes "ensureToken env c w = (None, c1, w1)"
    and "(case reqBody of None \<Rightarrow> Inr [] | Some rb \<Rightarrow> Marshal env rb) = Inr body"
    and "NewRequestWithContext env method (baseURL c1 @ path) = None"
    and "RoundTrip env (sent w1)
           (apiRequest c1 method path body (NewString env (uuids w1))) (now w1)
         = (Inr resp, t)"
    and "StatusCode resp \<ge> 300"
  shows "fst (doJSON env c w method path reqBody out) =
       Inl (Error (''contabo api error: '' @
           (if ErrorMessage (decodeApiErrorResponse env (RespBody resp)) \<noteq> []
            then ErrorMessage (decodeApiErrorResponse env (RespBody resp))
            else ''status '' @ Status resp)))"
  using assms
  by (simp add: doJSON_def newUUID_def Do_def Let_def)

theorem doJSON_status_error_witness:
  "ensureToken (testEnv (notFoundServer ''zone not found'')) tokenClient testWorld
     = (None, tokenClient, testWorld)
   \<and> NewRequestWithContext (testEnv (notFoundServer ''zone not found'')) ''DELETE''
        (baseURL tokenClient @ ''/v1/dns/zones/example.com/records/99'') = None
   \<and> RoundTrip (testEnv (notFoundServer ''zone not found'')) (sent testWorld)
        (apiRequest tokenClient ''DELETE'' ''/v1/dns/zones/example.com/records/99'' []
           (NewString (testEnv (notFoundServer ''zone not found'')) (uuids testWorld)))
        (now testWorld)
       = (Inr \<lparr>StatusCode = 404, Status = ''404 Not Found'', RespBody = ''zone not found''\<rparr>,
          1000000)
   \<and> (300::int) \<le> 404
   \<and> fst (doJSON (testEnv (notFoundServer ''zone not found'')) tokenClient testWorld
          ''DELETE'' ''/v1/dns/zones/example.com/records/99'' None noOut)
       = Inl (Error ''contabo api error: zone not found'')
   \<and> ensureToken (testEnv (notFoundServer [])) tokenClient testWorld
     = (None, tokenClient, testWorld)
   \<and> RoundTrip (testEnv (notFoundServer [])) (sent testWorld)
        (apiRequest tokenClient ''DELETE'' ''/v1/dns/zones/example.com/records/99'' []
           (NewString (testEnv (notFoundServer [])) (uuids testWorld)))
        (now testWorld)
       = (Inr \<lparr>StatusCode = 404, Status = ''404 Not Found'', RespBody = []\<rparr>, 1000000)
   \<and> fst (doJSON (testEnv (notFoundServer [])) tokenClient testWorld
          ''DELETE'' ''/v1/dns/zones/example.com/records/99'' None noOut)
       = Inl (Error ''contabo api error: status 404 Not Found'')"
proof -
  have e: "\<And>b. ensureToken (testEnv (notFoundServer b)) tokenClient testWorld
             = (None, tokenClient, testWorld)"
    by (simp add: ensureToken_def tokenClient_def testClient_def testWorld_def Until_def
        Second_def)
  have b: "(case None of None \<Rightarrow> Inr [] | Some rb \<Rightarrow> Marshal env rb) = Inr []" for env
    by simp
  have n: "\<And>b. NewRequestWithContext (testEnv (notFoundServer b)) ''DELETE''
        (baseURL tokenClient @ ''/v1/dns/zones/example.com/records/99'') = None"
    by (simp add: testEnv_def)
  have r: "\<And>b. RoundTrip (testEnv (notFoundServer b)) (sent testWorld)
        (apiRequest tokenClient ''DELETE'' ''/v1/dns/zones/example.com/records/99'' []
           (NewString (testEnv (notFoundServer b)) (uuids testWorld)))
        (now testWorld)
       = (Inr \<lparr>StatusCode = 404, Status = ''404 Not Found'', RespBody = b\<rparr>, 1000000)"
    by (simp add: testEnv_def notFoundServer_def apiRequest_def tokenClient_def
        testClient_def testWorld_def)
  have k: "(300::int) \<le> 404" by simp
  have s: "StatusCode \<lparr>StatusCode = 404, Status = ''404 Not Found'', RespBody = b\<rparr> \<ge> 300"
    for b by simp
  have m1: "ErrorMessage (decodeApiErrorResponse (testEnv (notFoundServer ''zone not found''))
              (RespBody \<lparr>StatusCode = 404, Status = ''404 Not Found'',
                         RespBody = ''zone not found''\<rparr>)) = ''zone not found''"
    by (simp add: testEnv_def)
  have m2: "ErrorMessage (decodeApiErrorResponse (testEnv (notFoundServer []))
              (RespBody \<lparr>StatusCode = 404, Status = ''404 Not Found'',
                         RespBody = []\<rparr>)) = []"
    by (simp add: testEnv_def)
  have t1: "fst (doJSON (testEnv (notFoundServer ''zone not found'')) tokenClient testWorld
          ''DELETE'' ''/v1/dns/zones/example.com/records/99'' None noOut)
       = Inl (Error ''contabo api error: zone not found'')"
    using doJSON_status_error [where out = noOut, OF e b n r s] m1 by simp
  have t2: "fst (doJSON (testEnv (notFoundServer [])) tokenClient testWorld
          ''DELETE'' ''/v1/dns/zones/example.com/records/99'' None noOut)
       = Inl (Error ''contabo api error: status 404 Not Found'')"
    using doJSON_status_error [where out = noOut, OF e b n r s] m2 by simp
  from e n r k t1 t2 show ?thesis by blast
qed

text \<open>
  C9. \<open>relativeRecordName\<close> never returns the empty string (an empty result is replaced by
  \<open>"@"\<close>). So the search filter that \<open>CleanUp\<close> hands to \<open>ListRecords\<close> is never empty, and
  every \<open>GET\<close> request that a run of \<open>CleanUp\<close> sends (the list request) carries
  \<open>?search=\<close> with the escaped record name after the record collection of the zone.
\<close>

theorem CleanUp_list_request_has_search:
  assumes "CleanUp env s ch w = (res, w')"
  shows "relativeRecordName fqdn zone \<noteq> []
     \<and> (\<exists>pre. sent w' = sent w @ pre
           \<and> (\<forall>q\<in>set pre. Method q = ''GET'' \<longrightarrow>
                  (\<exists>base. URL q = base @ ''/v1/dns/zones/''
                     @ PathEscape env (normalizeZone (ResolvedZone ch))
                     @ ''/records?search=''
                     @ QueryEscape env
                         (relativeRecordName (ResolvedFQDN ch) (ResolvedZone ch)))))"
proof -
  let ?P = "\<lambda>q. Method q = ''GET'' \<longrightarrow>
                  (\<exists>base. URL q = base @ ''/v1/dns/zones/''
                     @ PathEscape env (normalizeZone (ResolvedZone ch))
                     @ ''/records?search=''
                     @ QueryEscape env
                         (relativeRecordName (ResolvedFQDN ch) (ResolvedZone ch)))"
  have "\<exists>pre. sent w' = sent w @ pre \<and> (\<forall>q\<in>set pre. ?P q)"
  proof (cases "\<exists>cfg creds c. loadConfig env (chConfig ch) = Inr cfg
                \<and> loadCredentials s ch cfg = Inr creds \<and> newClient cfg creds = Inr c")
    case False
    with assms have "w' = w"
      by (auto simp add: CleanUp_def split: sum.splits)
    then show ?thesis by simp
  next
    case True
    then obtain cfg creds c where h: "loadConfig env (chConfig ch) = Inr cfg"
      "loadCredentials s ch cfg = Inr creds" "newClient cfg creds = Inr c" by blast
    obtain rl cl wl where l: "ListRecords env c w (normalizeZone (ResolvedZone ch))
        (relativeRecordName (ResolvedFQDN ch) (ResolvedZone ch)) = (rl, cl, wl)"
      by (metis prod_cases3)
    from ListRecords_methods [OF l relativeRecordName_nonempty]
    obtain pre1 where s1: "sent wl = sent w @ pre1"
      and m1: "\<forall>q\<in>set pre1. ?P q" by fastforce
    show ?thesis
    proof (cases rl)
      case (Inl err)
      with h l assms have "w' = wl" by (simp add: CleanUp_def Let_def)
      with s1 m1 show ?thesis by blast
    next
      case (Inr records)
      obtain r2 c2 w2 where d: "deleteRecords env cl wl (normalizeZone (ResolvedZone ch))
          (relativeRecordName (ResolvedFQDN ch) (ResolvedZone ch)) (Key ch) records
          = (r2, c2, w2)"
        by (metis prod_cases3)
      with Inr h l assms have w': "w' = w2" by (simp add: CleanUp_def Let_def)
      from deleteRecords_methods [OF d] obtain pre2 where s2: "sent w2 = sent wl @ pre2"
        and m2: "\<forall>q\<in>set pre2. Method q = ''POST'' \<or> Method q = ''DELETE''" by blast
      have "sent w' = sent w @ (pre1 @ pre2)" using s1 s2 w' by simp
      moreover have "\<forall>q\<in>set (pre1 @ pre2). ?P q"
        using m1 m2 by auto
      ultimately show ?thesis by blast
    qed
  qed
  then show ?thesis by (simp add: relativeRecordName_nonempty)
qed

theorem CleanUp_list_request_has_search_witness:
  "fst cleanedUp = None
   \<and> relativeRecordName (ResolvedFQDN testChallenge) (ResolvedZone testChallenge)
       = ''_acme-challenge''
   \<and> relativeRecordName (ResolvedFQDN testChallenge) (ResolvedZone testChallenge) \<noteq> []
   \<and> map URL (filter (\<lambda>q. Method q = ''GET'') (sent (snd cleanedUp)))
       = [''http://test/v1/dns/zones/example.com/records?search=_acme-challenge'']
   \<and> deletesSent (sent (snd cleanedUp))
       = [''http://test/v1/dns/zones/example.com/records/99'']"
proof -
  have a: "fst cleanedUp = None" by code_simp
  have b: "relativeRecordName (ResolvedFQDN testChallenge) (ResolvedZone testChallenge)
       = ''_acme-challenge''" by code_simp
  have c: "map URL (filter (\<lambda>q. Method q = ''GET'') (sent (snd cleanedUp)))
       = [''http://test/v1/dns/zones/example.com/records?search=_acme-challenge'']"
    by code_simp
  have d: "deletesSent (sent (snd cleanedUp))
       = [''http://test/v1/dns/zones/example.com/records/99'']" by code_simp
  have p: "CleanUp (testEnv testServer) (testSolver testSecret) testChallenge testWorld
             = (fst cleanedUp, snd cleanedUp)"
    by (simp add: cleanedUp_def)
  note T = CleanUp_list_request_has_search
    [OF p, where fqdn = "ResolvedFQDN testChallenge" and zone = "ResolvedZone testChallenge",
      THEN conjunct1]
  from T a b c d show ?thesis by blast
qed

text \<open>
  C10. \<open>credentialsFromSecret\<close> trims each of the four values with \<open>strings.TrimSpace\<close>
  before it checks them. It returns an error if and only if at least one of \<open>clientId\<close>,
  \<open>clientSecret\<close>, \<open>username\<close> and \<open>password\<close> is empty after trimming, which is the case
  for a key that is missing and for a value made of white space only; on success the
  credentials are the trimmed values. On that error \<open>Present\<close> and \<open>CleanUp\<close> return it with
  the world unchanged: no client is built and no request is sent.
\<close>

theorem credentialsFromSecret_error_iff:
  "((\<exists>err. credentialsFromSecret sec = Inl err) \<longleftrightarrow>
       (TrimSpace (secretValue sec ''clientId'') = []
        \<or> TrimSpace (secretValue sec ''clientSecret'') = []
        \<or> TrimSpace (secretValue sec ''username'') = []
        \<or> TrimSpace (secretValue sec ''password'') = []))
   \<and> (secretData sec key = None \<longrightarrow> TrimSpace (secretValue sec key) = [])
   \<and> (list_all asciiSpace (secretValue sec key) \<longrightarrow> TrimSpace (secretValue sec key) = [])
   \<and> (credentialsFromSecret sec = Inr creds \<longrightarrow>
        creds = \<lparr>credClientID = TrimSpace (secretValue sec ''clientId''),
                 credClientSecret = TrimSpace (secretValue sec ''clientSecret''),
                 credUsername = TrimSpace (secretValue sec ''username''),
                 credPassword = TrimSpace (secretValue sec ''password'')\<rparr>)
   \<and> (credentialsFromSecret sec = Inl err
        \<and> loadConfig env (chConfig ch) = Inr cfg
        \<and> client s = Some kube
        \<and> namespace = (if CredentialsSecretNamespace cfg = [] then ResourceNamespace ch
                        else CredentialsSecretNamespace cfg)
        \<and> namespace \<noteq> []
        \<and> kube namespace (CredentialsSecretName cfg) = Inr sec
       \<longrightarrow> Present env s ch w = (Some err, w) \<and> CleanUp env s ch w = (Some err, w))"
proof -
  have a: "(\<exists>err. credentialsFromSecret sec = Inl err) \<longleftrightarrow>
       (TrimSpace (secretValue sec ''clientId'') = []
        \<or> TrimSpace (secretValue sec ''clientSecret'') = []
        \<or> TrimSpace (secretValue sec ''username'') = []
        \<or> TrimSpace (secretValue sec ''password'') = [])"
    by (simp add: credentialsFromSecret_def Let_def secretKeyClientID_def
        secretKeyClientSecret_def secretKeyUsername_def secretKeyPassword_def)
  have b: "secretData sec key = None \<longrightarrow> TrimSpace (secretValue sec key) = []"
    by (simp add: secretValue_def TrimSpace_Nil)
  have c: "list_all asciiSpace (secretValue sec key) \<longrightarrow> TrimSpace (secretValue sec key) = []"
    by (simp add: TrimSpace_ascii)
  have d: "credentialsFromSecret sec = Inr creds \<longrightarrow>
        creds = \<lparr>credClientID = TrimSpace (secretValue sec ''clientId''),
                 credClientSecret = TrimSpace (secretValue sec ''clientSecret''),
                 credUsername = TrimSpace (secretValue sec ''username''),
                 credPassword = TrimSpace (secretValue sec ''password'')\<rparr>"
    by (auto simp add: credentialsFromSecret_def Let_def secretKeyClientID_def
        secretKeyClientSecret_def secretKeyUsername_def secretKeyPassword_def
        split: if_splits)
  have e: "credentialsFromSecret sec = Inl err
        \<and> loadConfig env (chConfig ch) = Inr cfg
        \<and> client s = Some kube
        \<and> namespace = (if CredentialsSecretNamespace cfg = [] then ResourceNamespace ch
                        else CredentialsSecretNamespace cfg)
        \<and> namespace \<noteq> []
        \<and> kube namespace (CredentialsSecretName cfg) = Inr sec
       \<longrightarrow> Present env s ch w = (Some err, w) \<and> CleanUp env s ch w = (Some err, w)"
    by (auto simp add: Present_def CleanUp_def loadCredentials_def Let_def)
  from a b c d e show ?thesis by blast
qed

theorem credentialsFromSecret_error_iff_witness:
  "credentialsFromSecret incompleteSecret = Inl (credentialsError incompleteSecret)
   \<and> secretData incompleteSecret ''password'' = None
   \<and> TrimSpace (secretValue incompleteSecret ''password'') = []
   \<and> TrimSpace (secretValue incompleteSecret ''clientId'') = ''id''
   \<and> loadConfig (testEnv testServer) (chConfig testChallenge) = Inr testConfig
   \<and> client (testSolver incompleteSecret) = Some (\<lambda>namespace name. Inr incompleteSecret)
   \<and> ResourceNamespace testChallenge = ''tenant-ns''
   \<and> Present (testEnv testServer) (testSolver incompleteSecret) testChallenge testWorld
       = (Some (credentialsError incompleteSecret), testWorld)
   \<and> CleanUp (testEnv testServer) (testSolver incompleteSecret) testChallenge testWorld
       = (Some (credentialsError incompleteSecret), testWorld)
   \<and> credentialsFromSecret (testSecret\<lparr>secretData := (secretData testSecret)(''password'' \<mapsto> ''  pass '')\<rparr>)
       = Inr testCredentials
   \<and> testCredentials
       = \<lparr>credClientID = TrimSpace ''id'', credClientSecret = TrimSpace ''secret'',
          credUsername = TrimSpace ''user'', credPassword = TrimSpace ''  pass ''\<rparr>"
proof -
  have f: "credentialsFromSecret incompleteSecret = Inl (credentialsError incompleteSecret)"
    by code_simp
  have m: "secretData incompleteSecret ''password'' = None" by code_simp
  have i: "TrimSpace (secretValue incompleteSecret ''clientId'') = ''id''" by code_simp
  have g: "loadConfig (testEnv testServer) (chConfig testChallenge) = Inr testConfig"
    by code_simp
  have k: "client (testSolver incompleteSecret) = Some (\<lambda>namespace name. Inr incompleteSecret)"
    by (simp add: testSolver_def)
  have n: "ResourceNamespace testChallenge = ''tenant-ns''" by code_simp
  have ns: "''tenant-ns'' = (if CredentialsSecretNamespace testConfig = []
                             then ResourceNamespace testChallenge
                             else CredentialsSecretNamespace testConfig)"
    by code_simp
  have ne: "''tenant-ns'' \<noteq> []" by simp
  have ok: "credentialsFromSecret
              (testSecret\<lparr>secretData := (secretData testSecret)(''password'' \<mapsto> ''  pass '')\<rparr>)
            = Inr testCredentials" by code_simp
  have v: "secretValue (testSecret\<lparr>secretData := (secretData testSecret)(''password'' \<mapsto> ''  pass '')\<rparr>) ''clientId'' = ''id''"
    "secretValue (testSecret\<lparr>secretData := (secretData testSecret)(''password'' \<mapsto> ''  pass '')\<rparr>) ''clientSecret'' = ''secret''"
    "secretValue (testSecret\<lparr>secretData := (secretData testSecret)(''password'' \<mapsto> ''  pass '')\<rparr>) ''username'' = ''user''"
    "secretValue (testSecret\<lparr>secretData := (secretData testSecret)(''password'' \<mapsto> ''  pass '')\<rparr>) ''password'' = ''  pass ''"
    by (simp_all add: secretValue_def testSecret_def)
  note T1 = credentialsFromSecret_error_iff
    [where sec = incompleteSecret and key = "''password''"
      and err = "credentialsError incompleteSecret" and env = "testEnv testServer"
      and ch = testChallenge and cfg = testConfig and s = "testSolver incompleteSecret"
      and kube = "\<lambda>namespace name. Inr incompleteSecret" and namespace = "''tenant-ns''"
      and w = testWorld]
  note T2 = credentialsFromSecret_error_iff
    [where sec = "testSecret\<lparr>secretData := (secretData testSecret)(''password'' \<mapsto> ''  pass '')\<rparr>"
      and creds = testCredentials, unfolded v]
  from T1 f m g k ns ne have
    p: "TrimSpace (secretValue incompleteSecret ''password'') = []"
    and q: "Present (testEnv testServer) (testSolver incompleteSecret) testChallenge testWorld
       = (Some (credentialsError incompleteSecret), testWorld)
       \<and> CleanUp (testEnv testServer) (testSolver incompleteSecret) testChallenge testWorld
       = (Some (credentialsError incompleteSecret), testWorld)"
    by blast+
  from T2 ok have r: "testCredentials
       = \<lparr>credClientID = TrimSpace ''id'', credClientSecret = TrimSpace ''secret'',
          credUsername = TrimSpace ''user'', credPassword = TrimSpace ''  pass ''\<rparr>"
    by blast
  from f m p i g k n q ok r show ?thesis by blast
qed

end
